theory Spec2Isabelle
  imports Complex_Main "HOL-Library.Word" "HOL-Library.Signed_Division"
begin

unbundle bit_operations_syntax

section \<open>The native edge-detection bridge (edge\_detection.cpp)\<close>

text \<open>
  The repository's core is one JNI function,
  \<^verbatim>\<open>Java_com_openedge_processing_EdgeDetection_nativeProcessFrame\<close>
  (called \<open>processFrame\<close> below). It borrows two Java arrays through the JNI,
  calls five OpenCV operations in sequence, and writes one packed 32-bit pixel per
  position into the borrowed output array.

  The embedding makes every effect of the function explicit:
  \<^item> the two Java arrays and the native views lent out by the JVM are fields of a
    state record that is passed through the function;
  \<^item> every JNI call, library call and error log is appended to a trace;
  \<^item> a C++ exception is a result value (\<open>Thrown\<close>), caught at the end as the
    source's two \<^verbatim>\<open>catch\<close> clauses do;
  \<^item> reading or writing outside a buffer is the result \<open>UB\<close> (undefined behaviour),
    never a silent default.
  OpenCV itself is not part of the repository. Its colour conversion, blur and edge
  detector are parameters of the model (the record \<open>cvlib\<close>); only the argument checks
  and the channel expansion the bridge depends on are written out.
\<close>

subsection \<open>Data\<close>

type_synonym jbyte = "8 word"
type_synonym jint = "32 word"

text \<open>
  \<^verbatim>\<open>cv::Mat\<close> with 8-bit elements: \<^verbatim>\<open>int rows, cols\<close>, the channel count of its type
  (\<^verbatim>\<open>CV_8UC1\<close> is 1) and the bytes behind \<^verbatim>\<open>data\<close>.
\<close>

record Mat =
  rows :: int
  cols :: int
  channels :: nat
  data :: "8 word list"

datatype thrown = cv_Exception | other_exception

datatype color_code = COLOR_YUV2BGR_NV21 | COLOR_BGR2GRAY | COLOR_GRAY2RGBA

text \<open>The release modes the source uses: \<^verbatim>\<open>0\<close> (copy back and free) and \<^verbatim>\<open>JNI_ABORT\<close>.\<close>

datatype release_mode = MODE_0 | JNI_ABORT

datatype event =
    Ev_GetByteArrayElements
  | Ev_GetIntArrayElements
  | Ev_ReleaseByteArrayElements release_mode
  | Ev_ReleaseIntArrayElements release_mode
  | Ev_cvtColor Mat color_code
  | Ev_GaussianBlur Mat "int \<times> int" real
  | Ev_Canny Mat real real
  | Ev_LOGE string

text \<open>
  The image-processing library, as far as the bridge cannot see into it: four
  operations that return a matrix or raise.
\<close>

record cvlib =
  yuv2bgr_nv21 :: "Mat \<Rightarrow> thrown + Mat"
  bgr2gray :: "Mat \<Rightarrow> thrown + Mat"
  gaussian_blur :: "Mat \<Rightarrow> int \<times> int \<Rightarrow> real \<Rightarrow> thrown + Mat"
  canny :: "Mat \<Rightarrow> real \<Rightarrow> real \<Rightarrow> thrown + Mat"

text \<open>
  What the JVM decides: whether \<^verbatim>\<open>Get<Type>ArrayElements\<close> returns a buffer or
  \<^verbatim>\<open>NULL\<close>, and whether the buffer of the output array is a copy (written back only
  by a release in mode 0) or the array's own storage (every store is visible at once).
\<close>

record jvm =
  yuv_available :: bool
  out_available :: bool
  out_is_copy :: bool

text \<open>
  The state: the contents of the two Java arrays (\<^verbatim>\<open>yuvData\<close>, \<^verbatim>\<open>outputBuffer\<close>), the
  native buffers behind the pointers \<^verbatim>\<open>yuvBytes\<close> and \<^verbatim>\<open>outPixels\<close> (\<open>None\<close>: no
  buffer is lent out), and the trace.
\<close>

record jni_state =
  yuvData :: "jbyte list"
  outputBuffer :: "jint list"
  yuvBytes :: "jbyte list option"
  outPixels :: "jint list option"
  trace :: "event list"

datatype 'a res = Ok 'a | Thrown thrown | UB

type_synonym 'a prog = "jni_state \<Rightarrow> 'a res \<times> jni_state"

datatype exit = Returned jint | Undefined

subsection \<open>Sequencing\<close>

definition return :: "'a \<Rightarrow> 'a prog" where
  "return a s = (Ok a, s)"

definition bindP :: "'a prog \<Rightarrow> ('a \<Rightarrow> 'b prog) \<Rightarrow> 'b prog" where
  "bindP m f s =
     (case m s of
        (Ok a, s') \<Rightarrow> f a s'
      | (Thrown e, s') \<Rightarrow> (Thrown e, s')
      | (UB, s') \<Rightarrow> (UB, s'))"

definition log_event :: "event \<Rightarrow> jni_state \<Rightarrow> jni_state" where
  "log_event ev s = s\<lparr>trace := trace s @ [ev]\<rparr>"

definition LOGE :: "string \<Rightarrow> unit prog" where
  "LOGE msg s = (Ok (), log_event (Ev_LOGE msg) s)"

subsection \<open>The JNI array functions\<close>

text \<open>The result is whether the returned pointer is non-\<^verbatim>\<open>NULL\<close>.\<close>

definition GetByteArrayElements :: "jvm \<Rightarrow> bool prog" where
  "GetByteArrayElements J s =
     (Ok (yuv_available J),
      log_event Ev_GetByteArrayElements
        (s\<lparr>yuvBytes := (if yuv_available J then Some (yuvData s) else None)\<rparr>))"

definition GetIntArrayElements :: "jvm \<Rightarrow> bool prog" where
  "GetIntArrayElements J s =
     (Ok (out_available J),
      log_event Ev_GetIntArrayElements
        (s\<lparr>outPixels := (if out_available J then Some (outputBuffer s) else None)\<rparr>))"

text \<open>
  Mode 0 copies the buffer back and frees it; \<^verbatim>\<open>JNI_ABORT\<close> frees it without copying
  back. Releasing a buffer that is not lent out is undefined.
\<close>

definition ReleaseByteArrayElements :: "release_mode \<Rightarrow> unit prog" where
  "ReleaseByteArrayElements mode s =
     (case yuvBytes s of
        None \<Rightarrow> (UB, s)
      | Some buf \<Rightarrow>
          (Ok (),
           log_event (Ev_ReleaseByteArrayElements mode)
             (s\<lparr>yuvData := (case mode of MODE_0 \<Rightarrow> buf | JNI_ABORT \<Rightarrow> yuvData s),
                yuvBytes := None\<rparr>)))"

definition ReleaseIntArrayElements :: "release_mode \<Rightarrow> unit prog" where
  "ReleaseIntArrayElements mode s =
     (case outPixels s of
        None \<Rightarrow> (UB, s)
      | Some buf \<Rightarrow>
          (Ok (),
           log_event (Ev_ReleaseIntArrayElements mode)
             (s\<lparr>outputBuffer := (case mode of MODE_0 \<Rightarrow> buf | JNI_ABORT \<Rightarrow> outputBuffer s),
                outPixels := None\<rparr>)))"

text \<open>
  \<^verbatim>\<open>outPixels[i] = v\<close>: a store through the native pointer. Where the JVM lent out
  the array's own storage, the store is at once a store into the Java array.
\<close>

definition store_outPixels :: "jvm \<Rightarrow> nat \<Rightarrow> jint \<Rightarrow> unit prog" where
  "store_outPixels J i v s =
     (case outPixels s of
        None \<Rightarrow> (UB, s)
      | Some buf \<Rightarrow>
          if i < length buf
          then (Ok (),
                s\<lparr>outPixels := Some (buf[i := v]),
                  outputBuffer :=
                    (if out_is_copy J then outputBuffer s else (outputBuffer s)[i := v])\<rparr>)
          else (UB, s))"

subsection \<open>The library calls\<close>

definition of_sum :: "thrown + 'a \<Rightarrow> 'a res" where
  "of_sum r = (case r of Inl e \<Rightarrow> Thrown e | Inr a \<Rightarrow> Ok a)"

text \<open>
  \<^verbatim>\<open>Mat yuvMat(rows, cols, CV_8UC1, (unsigned char*)yuvBytes)\<close>: a header over the
  borrowed buffer; nothing is copied.
\<close>

definition Mat_header :: "jint \<Rightarrow> jint \<Rightarrow> jbyte list \<Rightarrow> Mat" where
  "Mat_header r c buf = \<lparr>rows = sint r, cols = sint c, channels = 1, data = buf\<rparr>"

definition Mat_over_yuvBytes :: "jint \<Rightarrow> jint \<Rightarrow> Mat prog" where
  "Mat_over_yuvBytes r c s =
     (case yuvBytes s of
        None \<Rightarrow> (UB, s)
      | Some buf \<Rightarrow> (Ok (Mat_header r c buf), s))"

definition Mat_empty :: "Mat \<Rightarrow> bool" where
  "Mat_empty m = (rows m = 0 \<or> cols m = 0)"

text \<open>Whether the bytes behind a matrix header cover the matrix.\<close>

definition Mat_fits :: "Mat \<Rightarrow> bool" where
  "Mat_fits m = (nat (rows m) * nat (cols m) * channels m \<le> length (data m))"

text \<open>
  \<^verbatim>\<open>COLOR_GRAY2RGBA\<close> on an 8-bit image: the gray value in the three colour channels
  and the maximum, 255, in the alpha channel. The source states the resulting packed
  values in its comment at lines 60-61 (white \<^verbatim>\<open>0xFFFFFFFF\<close>, black \<^verbatim>\<open>0xFF000000\<close>).
\<close>

definition gray2rgba :: "Mat \<Rightarrow> Mat" where
  "gray2rgba m =
     \<lparr>rows = rows m, cols = cols m, channels = 4,
      data = concat (map (\<lambda>g. [g, g, g, 255]) (data m))\<rparr>"

text \<open>
  Modelled from the spec: the library's \<^verbatim>\<open>cvtColor\<close>, of which the repository holds
  no source. The spec names its failures (``malformed dimensions, unsupported pixel
  ratios'', and a zero width or height that ``must return failure'') without listing the
  checks; they are written out as the library makes them: an empty source raises, and the
  NV21 conversion takes a single-channel matrix of positive, even width whose row count
  is a multiple of three (the luma rows and half as many chroma rows), reading
  \<open>rows * cols\<close> bytes behind the header. The colorimetry is the parameter's.
\<close>

definition cvtColor_result :: "cvlib \<Rightarrow> Mat \<Rightarrow> color_code \<Rightarrow> Mat res" where
  "cvtColor_result L src code =
     (if Mat_empty src then Thrown cv_Exception
      else case code of
        COLOR_YUV2BGR_NV21 \<Rightarrow>
          if channels src = 1 \<and> 0 < rows src \<and> 0 < cols src
             \<and> cols src mod 2 = 0 \<and> rows src mod 3 = 0
          then (if Mat_fits src then of_sum (yuv2bgr_nv21 L src) else UB)
          else Thrown cv_Exception
      | COLOR_BGR2GRAY \<Rightarrow> of_sum (bgr2gray L src)
      | COLOR_GRAY2RGBA \<Rightarrow>
          if channels src = 1 then Ok (gray2rgba src) else Thrown cv_Exception)"

definition cvtColor :: "cvlib \<Rightarrow> Mat \<Rightarrow> color_code \<Rightarrow> Mat prog" where
  "cvtColor L src code s = (cvtColor_result L src code, log_event (Ev_cvtColor src code) s)"

definition GaussianBlur :: "cvlib \<Rightarrow> Mat \<Rightarrow> int \<times> int \<Rightarrow> real \<Rightarrow> Mat prog" where
  "GaussianBlur L src ksize sigmaX s =
     (of_sum (gaussian_blur L src ksize sigmaX), log_event (Ev_GaussianBlur src ksize sigmaX) s)"

definition Canny :: "cvlib \<Rightarrow> Mat \<Rightarrow> real \<Rightarrow> real \<Rightarrow> Mat prog" where
  "Canny L src threshold1 threshold2 s =
     (of_sum (canny L src threshold1 threshold2), log_event (Ev_Canny src threshold1 threshold2) s)"

subsection \<open>processFrame\<close>

text \<open>
  \<^verbatim>\<open>height/2\<close> on \<^verbatim>\<open>int\<close> truncates towards zero; sums and products of \<^verbatim>\<open>jint\<close>
  wrap around in 32 bits, as the compiled code does.
\<close>

definition jint_div :: "jint \<Rightarrow> jint \<Rightarrow> jint" where
  "jint_div a b = word_of_int (sint a sdiv sint b)"

text \<open>
  \<^verbatim>\<open>((int*)rgbaMat.data)[i]\<close>: four consecutive bytes read as one \<^verbatim>\<open>int\<close>, the first
  byte least significant (every Android ABI is little-endian).
\<close>

definition pack_le :: "8 word \<Rightarrow> 8 word \<Rightarrow> 8 word \<Rightarrow> 8 word \<Rightarrow> jint" where
  "pack_le b0 b1 b2 b3 =
     ucast b0 OR push_bit 8 (ucast b1) OR push_bit 16 (ucast b2) OR push_bit 24 (ucast b3)"

definition int_at :: "8 word list \<Rightarrow> nat \<Rightarrow> jint option" where
  "int_at bs i =
     (if 4 * i + 3 < length bs
      then Some (pack_le (bs ! (4 * i)) (bs ! (4 * i + 1)) (bs ! (4 * i + 2)) (bs ! (4 * i + 3)))
      else None)"

text \<open>Lines 43-63: from the borrowed frame to the RGBA rendering of the edge map.\<close>

definition convert_to_edges :: "cvlib \<Rightarrow> jint \<Rightarrow> jint \<Rightarrow> Mat prog" where
  "convert_to_edges L width height =
     bindP (Mat_over_yuvBytes (height + jint_div height 2) width) (\<lambda>yuvMat.
     bindP (cvtColor L yuvMat COLOR_YUV2BGR_NV21) (\<lambda>bgrMat.
     bindP (cvtColor L bgrMat COLOR_BGR2GRAY) (\<lambda>grayMat.
     bindP (GaussianBlur L grayMat (5, 5) 1.5) (\<lambda>blurredMat.
     bindP (Canny L blurredMat 50 150) (\<lambda>edgesMat.
     cvtColor L edgesMat COLOR_GRAY2RGBA)))))"

text \<open>
  Lines 68-78: \<^verbatim>\<open>for (int i = 0; i < pixelCount; i++)\<close>, with the signed test
  \<^verbatim>\<open>pixel > 0\<close> on the packed pixel.
\<close>

function binarize_loop :: "jvm \<Rightarrow> 8 word list \<Rightarrow> nat \<Rightarrow> nat \<Rightarrow> unit prog" where
  "binarize_loop J rgbaData i pixelCount s =
     (if i < pixelCount then
        (case int_at rgbaData i of
           None \<Rightarrow> (UB, s)
         | Some pixel \<Rightarrow>
             (case store_outPixels J i (if 0 <s pixel then 0xFFFFFFFF else 0xFF000000) s of
                (Ok u, s') \<Rightarrow> binarize_loop J rgbaData (Suc i) pixelCount s'
              | (Thrown e, s') \<Rightarrow> (Thrown e, s')
              | (UB, s') \<Rightarrow> (UB, s')))
      else (Ok (), s))"
  by pat_completeness auto
termination
  by (relation "measure (\<lambda>(J, rgbaData, i, pixelCount, s). pixelCount - i)") auto

text \<open>The body of the \<^verbatim>\<open>try\<close> block, lines 32-84.\<close>

definition try_block :: "cvlib \<Rightarrow> jvm \<Rightarrow> jint \<Rightarrow> jint \<Rightarrow> jint prog" where
  "try_block L J width height =
     bindP (GetByteArrayElements J) (\<lambda>yuvBytes_ok.
     bindP (GetIntArrayElements J) (\<lambda>outPixels_ok.
       if \<not> yuvBytes_ok \<or> \<not> outPixels_ok then
         bindP (LOGE ''Failed to get array elements'') (\<lambda>_.
         bindP (if yuvBytes_ok then ReleaseByteArrayElements JNI_ABORT else return ()) (\<lambda>_.
         bindP (if outPixels_ok then ReleaseIntArrayElements JNI_ABORT else return ()) (\<lambda>_.
         return (- 1))))
       else
         bindP (convert_to_edges L width height) (\<lambda>rgbaMat.
         bindP (binarize_loop J (data rgbaMat) 0 (nat (sint (width * height)))) (\<lambda>_.
         bindP (ReleaseByteArrayElements JNI_ABORT) (\<lambda>_.
         bindP (ReleaseIntArrayElements MODE_0) (\<lambda>_.
         return 0))))))"

text \<open>The function: the \<^verbatim>\<open>try\<close> block and its two \<^verbatim>\<open>catch\<close> clauses, lines 31-91.\<close>

definition processFrame :: "cvlib \<Rightarrow> jvm \<Rightarrow> jint \<Rightarrow> jint \<Rightarrow> jni_state \<Rightarrow> exit \<times> jni_state" where
  "processFrame L J width height s =
     (case try_block L J width height s of
        (Ok status, s') \<Rightarrow> (Returned status, s')
      | (Thrown cv_Exception, s') \<Rightarrow>
          (Returned (- 1), log_event (Ev_LOGE ''OpenCV exception'') s')
      | (Thrown other_exception, s') \<Rightarrow>
          (Returned (- 1), log_event (Ev_LOGE ''Unknown exception in edge detection'') s')
      | (UB, s') \<Rightarrow> (Undefined, s'))"

subsection \<open>States along the way\<close>

text \<open>The state after the two \<^verbatim>\<open>Get<Type>ArrayElements\<close> calls of lines 33-34.\<close>

definition acquired :: "jvm \<Rightarrow> jni_state \<Rightarrow> jni_state" where
  "acquired J s =
     log_event Ev_GetIntArrayElements
       ((log_event Ev_GetByteArrayElements
          (s\<lparr>yuvBytes := (if yuv_available J then Some (yuvData s) else None)\<rparr>))
        \<lparr>outPixels := (if out_available J then Some (outputBuffer s) else None)\<rparr>)"

text \<open>The state after one store of the black pixel at index \<open>i\<close> of the buffer \<open>buf\<close>.\<close>

definition stored :: "jvm \<Rightarrow> nat \<Rightarrow> jint list \<Rightarrow> jni_state \<Rightarrow> jni_state" where
  "stored J i buf s =
     s\<lparr>outPixels := Some (buf[i := 0xFF000000]),
       outputBuffer :=
         (if out_is_copy J then outputBuffer s else (outputBuffer s)[i := 0xFF000000])\<rparr>"

text \<open>The state after the two releases of lines 81-82, the output buffer being \<open>buf\<close>.\<close>

definition released :: "jint list \<Rightarrow> jni_state \<Rightarrow> jni_state" where
  "released buf s =
     s\<lparr>outputBuffer := buf, yuvBytes := None, outPixels := None,
       trace := trace s @ [Ev_ReleaseByteArrayElements JNI_ABORT,
                           Ev_ReleaseIntArrayElements MODE_0]\<rparr>"

subsection \<open>Reading the trace\<close>

definition is_cv_call :: "event \<Rightarrow> bool" where
  "is_cv_call ev =
     (case ev of
        Ev_cvtColor src code \<Rightarrow> True
      | Ev_GaussianBlur src ksize sigmaX \<Rightarrow> True
      | Ev_Canny src threshold1 threshold2 \<Rightarrow> True
      | Ev_GetByteArrayElements \<Rightarrow> False
      | Ev_GetIntArrayElements \<Rightarrow> False
      | Ev_ReleaseByteArrayElements mode \<Rightarrow> False
      | Ev_ReleaseIntArrayElements mode \<Rightarrow> False
      | Ev_LOGE msg \<Rightarrow> False)"

definition cv_calls :: "event list \<Rightarrow> event list" where
  "cv_calls tr = filter is_cv_call tr"

subsection \<open>The pipeline in the spec's words\<close>

text \<open>
  Steps 2 to 5 of the spec's component design: interpret the frame as NV21 and convert
  it to colour, convert to luminance, smooth with a 5 by 5 Gaussian of sigma 1.5, detect
  edges with thresholds 50 and 150. A stage that fails ends the pipeline.
\<close>

definition bind_res :: "'a res \<Rightarrow> ('a \<Rightarrow> 'b res) \<Rightarrow> 'b res" where
  "bind_res r f = (case r of Ok a \<Rightarrow> f a | Thrown e \<Rightarrow> Thrown e | UB \<Rightarrow> UB)"

definition four_stage_edge_mask :: "cvlib \<Rightarrow> Mat \<Rightarrow> Mat res" where
  "four_stage_edge_mask L frame =
     bind_res (cvtColor_result L frame COLOR_YUV2BGR_NV21) (\<lambda>colour.
     bind_res (cvtColor_result L colour COLOR_BGR2GRAY) (\<lambda>gray.
     bind_res (of_sum (gaussian_blur L gray (5, 5) 1.5)) (\<lambda>blurred.
     of_sum (canny L blurred 50 150))))"

text \<open>The library calls of those four stages, as trace events.\<close>

definition four_stage_calls :: "cvlib \<Rightarrow> Mat \<Rightarrow> event list" where
  "four_stage_calls L frame =
     Ev_cvtColor frame COLOR_YUV2BGR_NV21 #
     (case cvtColor_result L frame COLOR_YUV2BGR_NV21 of
        Ok colour \<Rightarrow>
          Ev_cvtColor colour COLOR_BGR2GRAY #
          (case cvtColor_result L colour COLOR_BGR2GRAY of
             Ok gray \<Rightarrow>
               Ev_GaussianBlur gray (5, 5) 1.5 #
               (case of_sum (gaussian_blur L gray (5, 5) 1.5) of
                  Ok blurred \<Rightarrow> [Ev_Canny blurred 50 150]
                | Thrown e \<Rightarrow> []
                | UB \<Rightarrow> [])
           | Thrown e \<Rightarrow> []
           | UB \<Rightarrow> [])
      | Thrown e \<Rightarrow> []
      | UB \<Rightarrow> [])"

text \<open>
  The matrix header \<open>processFrame\<close> lays over the frame: \<^verbatim>\<open>height + height/2\<close> rows of
  \<^verbatim>\<open>width\<close> bytes.
\<close>

definition yuvMat_of :: "jint \<Rightarrow> jint \<Rightarrow> jbyte list \<Rightarrow> Mat" where
  "yuvMat_of width height frame = Mat_header (height + jint_div height 2) width frame"


subsection \<open>Concrete inputs\<close>

text \<open>
  A call's entry state: the frame, an output array of \<open>n\<close> zeros (a new Java
  \<^verbatim>\<open>int[n]\<close>), no buffer lent out, an empty trace.
\<close>

definition entry_state :: "jbyte list \<Rightarrow> nat \<Rightarrow> jni_state" where
  "entry_state frame n =
     \<lparr>yuvData = frame, outputBuffer = replicate n 0, yuvBytes = None, outPixels = None,
      trace = []\<rparr>"

definition jvm_ok :: jvm where
  "jvm_ok = \<lparr>yuv_available = True, out_available = True, out_is_copy = True\<rparr>"

definition jvm_no_output :: jvm where
  "jvm_no_output = \<lparr>yuv_available = True, out_available = False, out_is_copy = True\<rparr>"

text \<open>A JVM that lends out the output array's own storage instead of a copy.\<close>

definition jvm_direct :: jvm where
  "jvm_direct = \<lparr>yuv_available = True, out_available = True, out_is_copy = False\<rparr>"

text \<open>
  A stand-in library for evaluating the bridge: the colour image repeats each luma byte
  three times, the gray image takes every third byte back, the blur is the identity, and
  the detector marks every pixel that is not black.
\<close>

fun every_third :: "'a list \<Rightarrow> 'a list" where
  "every_third (b # g # r # xs) = b # every_third xs"
| "every_third xs = []"

definition demo_lib :: cvlib where
  "demo_lib =
     \<lparr>yuv2bgr_nv21 = (\<lambda>m. Inr \<lparr>rows = rows m * 2 div 3, cols = cols m, channels = 3,
          data = concat (map (\<lambda>y. [y, y, y])
                   (take (nat (rows m * 2 div 3) * nat (cols m)) (data m)))\<rparr>),
      bgr2gray = (\<lambda>m. Inr \<lparr>rows = rows m, cols = cols m, channels = 1,
          data = every_third (data m)\<rparr>),
      gaussian_blur = (\<lambda>m ksize sigmaX. Inr m),
      canny = (\<lambda>m threshold1 threshold2. Inr \<lparr>rows = rows m, cols = cols m, channels = 1,
          data = map (\<lambda>g. if g = 0 then 0 else 255) (data m)\<rparr>)\<rparr>"

text \<open>Two by two: a black left column and a white right column, neutral chroma.\<close>

definition frame_2x2 :: "jbyte list" where
  "frame_2x2 = [0, 255, 0, 255, 128, 128]"

text \<open>
  The spec's scenario: four by four, the left two columns 0 and the right two 255, all
  chroma bytes 128.
\<close>

definition frame_4x4 :: "jbyte list" where
  "frame_4x4 =
     [0, 0, 255, 255,
      0, 0, 255, 255,
      0, 0, 255, 255,
      0, 0, 255, 255,
      128, 128, 128, 128,
      128, 128, 128, 128]"

section \<open>Properties of the embedding\<close>

subsection \<open>The packed pixel and the loop\<close>

declare binarize_loop.simps [simp del]

lemma log_event_fields [simp]:
  "yuvData (log_event ev s) = yuvData s"
  "outputBuffer (log_event ev s) = outputBuffer s"
  "yuvBytes (log_event ev s) = yuvBytes s"
  "outPixels (log_event ev s) = outPixels s"
  "trace (log_event ev s) = trace s @ [ev]"
  by (simp_all add: log_event_def)

lemma pack_le_alpha_bit: "bit (pack_le a b c 255) 31"
  by (simp add: pack_le_def bit_or_iff bit_push_bit_iff)

lemma pack_le_alpha_not_positive: "\<not> 0 <s pack_le a b c 255"
proof -
  have "bit (pack_le a b c 255) (LENGTH(32) - Suc 0)"
    using pack_le_alpha_bit by simp
  then have "sint (pack_le a b c 255) < 0"
    by (simp only: bit_last_iff)
  then show ?thesis
    by (simp add: word_sless_alt)
qed

text \<open>
  The two packed values the source's comment names for the RGBA image are both negative
  as \<^verbatim>\<open>int\<close>, in either byte order.
\<close>

lemma documented_pixels_not_positive:
  "\<not> 0 <s (0xFFFFFFFF :: jint)" "\<not> 0 <s (0xFF000000 :: jint)"
  by (simp_all add: word_sless_alt)

lemma rgba_nth:
  "i < length gs \<Longrightarrow> k < 4 \<Longrightarrow>
   concat (map (\<lambda>g. [g, g, g, 255]) gs) ! (4 * i + k) = (if k = 3 then 255 else gs ! i)"
proof (induction gs arbitrary: i)
  case Nil
  then show ?case by simp
next
  case (Cons g gs)
  show ?case
  proof (cases i)
    case 0
    with Cons.prems show ?thesis
      by (auto simp: nth_Cons')
  next
    case (Suc j)
    with Cons.prems have "j < length gs" by simp
    from Cons.IH [OF this Cons.prems(2)] Suc show ?thesis
      by (simp add: nth_Cons')
  qed
qed

lemma rgba_length: "length (concat (map (\<lambda>g. [g, g, g, 255::8 word]) gs)) = 4 * length gs"
  by (induction gs) auto

lemma int_at_gray2rgba:
  "int_at (data (gray2rgba m)) i =
     (if i < length (data m)
      then Some (pack_le (data m ! i) (data m ! i) (data m ! i) 255) else None)"
proof (cases "i < length (data m)")
  case True
  let ?bs = "concat (map (\<lambda>g. [g, g, g, 255]) (data m))"
  have b0: "?bs ! (4 * i) = data m ! i"
    using rgba_nth [OF True, of 0] by simp
  have b1: "?bs ! (4 * i + 1) = data m ! i"
    using rgba_nth [OF True, of 1] by simp
  have b2: "?bs ! (4 * i + 2) = data m ! i"
    using rgba_nth [OF True, of 2] by simp
  have b3: "?bs ! (4 * i + 3) = 255"
    using rgba_nth [OF True, of 3] by simp
  have "4 * i + 3 < length ?bs"
    using True by (simp add: rgba_length)
  then show ?thesis
    using True by (simp only: int_at_def gray2rgba_def Mat.simps b0 b1 b2 b3 if_True)
next
  case False
  then show ?thesis
    by (simp add: int_at_def gray2rgba_def rgba_length)
qed

text \<open>One iteration of the loop over an RGBA rendering: the store is always the black pixel.\<close>

lemma binarize_loop_step:
  "binarize_loop J (data (gray2rgba m)) i n s =
     (if i < n then
        (if i < length (data m) then
           (case store_outPixels J i 0xFF000000 s of
              (Ok u, s') \<Rightarrow> binarize_loop J (data (gray2rgba m)) (Suc i) n s'
            | (Thrown e, s') \<Rightarrow> (Thrown e, s')
            | (UB, s') \<Rightarrow> (UB, s'))
         else (UB, s))
      else (Ok (), s))"
  by (subst binarize_loop.simps) (simp add: int_at_gray2rgba pack_le_alpha_not_positive)

lemma binarize_loop_rule:
  assumes fin: "\<And>i s. \<not> i < n \<Longrightarrow> P i s (Ok (), s)"
    and ub: "\<And>i s. i < n \<Longrightarrow>
               \<not> (i < length (data m) \<and> (\<exists>buf. outPixels s = Some buf \<and> i < length buf)) \<Longrightarrow>
               P i s (UB, s)"
    and step: "\<And>i s buf res. i < n \<Longrightarrow> i < length (data m) \<Longrightarrow> outPixels s = Some buf \<Longrightarrow>
               i < length buf \<Longrightarrow> P (Suc i) (stored J i buf s) res \<Longrightarrow> P i s res"
  shows "P i s (binarize_loop J (data (gray2rgba m)) i n s)"
proof (induction "n - i" arbitrary: i s)
  case 0
  then show ?case
    by (simp add: binarize_loop_step [of J m i n s] fin)
next
  case (Suc k)
  then have lt: "i < n" and k: "k = n - Suc i" by simp_all
  show ?case
  proof (cases "i < length (data m) \<and> (\<exists>buf. outPixels s = Some buf \<and> i < length buf)")
    case False
    then have "binarize_loop J (data (gray2rgba m)) i n s = (UB, s)"
      using lt by (auto simp add: binarize_loop_step [of J m i n s] store_outPixels_def
          split: option.splits)
    with ub [OF lt False] show ?thesis by simp
  next
    case True
    then obtain buf where im: "i < length (data m)" and buf: "outPixels s = Some buf"
      and ib: "i < length buf" by blast
    have eq: "binarize_loop J (data (gray2rgba m)) i n s =
        binarize_loop J (data (gray2rgba m)) (Suc i) n (stored J i buf s)"
      using lt im buf ib
      by (simp add: binarize_loop_step [of J m i n s] store_outPixels_def stored_def)
    from step [OF lt im buf ib Suc.hyps(1) [OF k]] eq show ?thesis by simp
  qed
qed


lemma binarize_loop_frame:
  assumes "binarize_loop J (data (gray2rgba m)) i n s = (r, s')"
  shows "yuvData s' = yuvData s \<and> yuvBytes s' = yuvBytes s \<and> trace s' = trace s
    \<and> (outPixels s' = None) = (outPixels s = None)
    \<and> length (outputBuffer s') = length (outputBuffer s)
    \<and> (r = Ok () \<or> r = UB)"
proof -
  let ?P = "\<lambda>(i :: nat) (s :: jni_state) (res :: unit res \<times> jni_state).
      yuvData (snd res) = yuvData s \<and> yuvBytes (snd res) = yuvBytes s
      \<and> trace (snd res) = trace s
      \<and> (outPixels (snd res) = None) = (outPixels s = None)
      \<and> length (outputBuffer (snd res)) = length (outputBuffer s)
      \<and> (fst res = Ok () \<or> fst res = UB)"
  have "?P i s (binarize_loop J (data (gray2rgba m)) i n s)"
  proof (rule binarize_loop_rule [where P = ?P])
    fix i and s :: jni_state
    show "?P i s (Ok (), s)" by simp
  next
    fix i and s :: jni_state
    show "?P i s (UB, s)" by simp
  next
    fix i buf and s :: jni_state and res :: "unit res \<times> jni_state"
    assume "outPixels s = Some buf" and "?P (Suc i) (stored J i buf s) res"
    then show "?P i s res"
      by (simp add: stored_def)
  qed
  with assms show ?thesis by simp
qed

lemma binarize_loop_Ok:
  assumes "binarize_loop J (data (gray2rgba m)) i n s = (Ok u, s')"
    and "outPixels s = Some buf"
  shows "\<exists>buf'. outPixels s' = Some buf' \<and> length buf' = length buf
    \<and> (\<forall>j<length buf. buf' ! j = (if i \<le> j \<and> j < n then 0xFF000000 else buf ! j))"
proof -
  let ?P = "\<lambda>i (s :: jni_state) (res :: unit res \<times> jni_state).
      \<forall>b. fst res = Ok () \<longrightarrow> outPixels s = Some b \<longrightarrow>
          (\<exists>buf'. outPixels (snd res) = Some buf' \<and> length buf' = length b
             \<and> (\<forall>j<length b. buf' ! j = (if i \<le> j \<and> j < n then 0xFF000000 else b ! j)))"
  have "?P i s (binarize_loop J (data (gray2rgba m)) i n s)"
  proof (rule binarize_loop_rule [where P = ?P])
    fix i and s :: jni_state
    assume "\<not> i < n"
    then show "?P i s (Ok (), s)"
      by auto
  next
    fix i and s :: jni_state
    show "?P i s (UB, s)"
      by simp
  next
    fix i buf and s :: jni_state and res :: "unit res \<times> jni_state"
    assume lt: "i < n" and buf: "outPixels s = Some buf" and ib: "i < length buf"
      and IH: "?P (Suc i) (stored J i buf s) res"
    show "?P i s res"
    proof (intro allI impI)
      fix b
      assume ok: "fst res = Ok ()" and "outPixels s = Some b"
      with buf have b: "b = buf" by simp
      have "outPixels (stored J i buf s) = Some (buf[i := 0xFF000000])"
        by (simp add: stored_def)
      with IH ok obtain buf' where o: "outPixels (snd res) = Some buf'"
        and l: "length buf' = length buf"
        and v: "\<forall>j<length buf. buf' ! j =
                  (if Suc i \<le> j \<and> j < n then 0xFF000000 else buf[i := 0xFF000000] ! j)"
        by fastforce
      have "\<forall>j<length buf. buf' ! j = (if i \<le> j \<and> j < n then 0xFF000000 else buf ! j)"
      proof (intro allI impI)
        fix j
        assume j: "j < length buf"
        show "buf' ! j = (if i \<le> j \<and> j < n then 0xFF000000 else buf ! j)"
        proof (cases "j = i")
          case True
          with v j lt ib show ?thesis by simp
        next
          case False
          with v j show ?thesis by auto
        qed
      qed
      with o l b show "\<exists>buf'. outPixels (snd res) = Some buf' \<and> length buf' = length b
             \<and> (\<forall>j<length b. buf' ! j = (if i \<le> j \<and> j < n then 0xFF000000 else b ! j))"
        by simp
    qed
  qed
  with assms show ?thesis by simp
qed

lemma binarize_loop_Ok_bounds:
  assumes "binarize_loop J (data (gray2rgba m)) i n s = (Ok u, s')"
    and "i < n" and "outPixels s = Some buf"
  shows "n \<le> length (data m) \<and> n \<le> length buf"
proof -
  let ?P = "\<lambda>(i :: nat) (s :: jni_state) (res :: unit res \<times> jni_state).
      fst res = Ok () \<longrightarrow> i < n \<longrightarrow>
      n \<le> length (data m) \<and> (\<forall>b. outPixels s = Some b \<longrightarrow> n \<le> length b)"
  have "?P i s (binarize_loop J (data (gray2rgba m)) i n s)"
  proof (rule binarize_loop_rule [where P = ?P])
    fix i and s :: jni_state
    assume "\<not> i < n"
    then show "?P i s (Ok (), s)" by simp
  next
    fix i and s :: jni_state
    show "?P i s (UB, s)" by simp
  next
    fix i buf and s :: jni_state and res :: "unit res \<times> jni_state"
    assume lt: "i < n" and im: "i < length (data m)" and buf: "outPixels s = Some buf"
      and ib: "i < length buf"
      and IH: "?P (Suc i) (stored J i buf s) res"
    show "?P i s res"
    proof (intro impI)
      assume ok: "fst res = Ok ()"
      show "n \<le> length (data m) \<and> (\<forall>b. outPixels s = Some b \<longrightarrow> n \<le> length b)"
      proof (cases "Suc i < n")
        case True
        from IH [THEN mp, OF ok, THEN mp, OF True]
        have "n \<le> length (data m)"
          and "\<forall>b. outPixels (stored J i buf s) = Some b \<longrightarrow> n \<le> length b"
          by simp_all
        then show ?thesis
          using buf by (simp add: stored_def)
      next
        case False
        with lt have "n = Suc i" by simp
        with im ib buf show ?thesis by simp
      qed
    qed
  qed
  with assms show ?thesis by simp
qed

lemma binarize_loop_succeeds:
  assumes "outPixels s = Some buf" and "n \<le> length buf" and nm: "n \<le> length (data m)"
  shows "fst (binarize_loop J (data (gray2rgba m)) i n s) = Ok ()"
proof -
  let ?P = "\<lambda>(i :: nat) (s :: jni_state) (res :: unit res \<times> jni_state).
      \<forall>b. outPixels s = Some b \<longrightarrow> n \<le> length b \<longrightarrow> fst res = Ok ()"
  have "?P i s (binarize_loop J (data (gray2rgba m)) i n s)"
  proof (rule binarize_loop_rule [where P = ?P])
    fix i and s :: jni_state
    show "?P i s (Ok (), s)" by simp
  next
    fix i and s :: jni_state
    assume "i < n"
      and "\<not> (i < length (data m) \<and> (\<exists>buf. outPixels s = Some buf \<and> i < length buf))"
    with nm show "?P i s (UB, s)" by auto
  next
    fix i buf and s :: jni_state and res :: "unit res \<times> jni_state"
    assume "outPixels s = Some buf" and "?P (Suc i) (stored J i buf s) res"
    then show "?P i s res"
      by (simp add: stored_def)
  qed
  with assms show ?thesis by simp
qed

lemma set_update_black:
  assumes "v \<in> X" and "set xs \<subseteq> X"
  shows "set (xs[k := v]) \<subseteq> X"
proof -
  have "set (xs[k := v]) \<subseteq> insert v (set xs)"
    by (rule set_update_subset_insert)
  also have "insert v (set xs) \<subseteq> X"
    using assms by simp
  finally show ?thesis .
qed

lemma binarize_loop_values:
  fixes X :: "jint set"
  assumes bX: "0xFF000000 \<in> X" and sX: "set (outputBuffer s) \<subseteq> X"
    and vX: "\<forall>buf. outPixels s = Some buf \<longrightarrow> set buf \<subseteq> X"
  shows "set (outputBuffer (snd (binarize_loop J (data (gray2rgba m)) i n s))) \<subseteq> X
    \<and> (\<forall>buf. outPixels (snd (binarize_loop J (data (gray2rgba m)) i n s)) = Some buf
          \<longrightarrow> set buf \<subseteq> X)"
proof -
  let ?P = "\<lambda>(i :: nat) (s :: jni_state) (res :: unit res \<times> jni_state).
      set (outputBuffer s) \<subseteq> X \<longrightarrow> (\<forall>buf. outPixels s = Some buf \<longrightarrow> set buf \<subseteq> X) \<longrightarrow>
      set (outputBuffer (snd res)) \<subseteq> X
      \<and> (\<forall>buf. outPixels (snd res) = Some buf \<longrightarrow> set buf \<subseteq> X)"
  have "?P i s (binarize_loop J (data (gray2rgba m)) i n s)"
  proof (rule binarize_loop_rule [where P = ?P])
    fix i and s :: jni_state
    show "?P i s (Ok (), s)" by simp
  next
    fix i and s :: jni_state
    show "?P i s (UB, s)" by simp
  next
    fix i buf and s :: jni_state and res :: "unit res \<times> jni_state"
    assume buf: "outPixels s = Some buf" and IH: "?P (Suc i) (stored J i buf s) res"
    show "?P i s res"
    proof (intro impI)
      assume a: "set (outputBuffer s) \<subseteq> X"
        and b: "\<forall>buf. outPixels s = Some buf \<longrightarrow> set buf \<subseteq> X"
      from b buf have "set buf \<subseteq> X" by simp
      with bX have 1: "set (buf[i := 0xFF000000]) \<subseteq> X"
        by (rule set_update_black)
      from bX a have 2: "set ((outputBuffer s)[i := 0xFF000000]) \<subseteq> X"
        by (rule set_update_black)
      have 3: "set (outputBuffer (stored J i buf s)) \<subseteq> X"
        using a 2 by (simp add: stored_def)
      have 4: "\<forall>b. outPixels (stored J i buf s) = Some b \<longrightarrow> set b \<subseteq> X"
        using 1 by (simp add: stored_def)
      from IH 3 4 show "set (outputBuffer (snd res)) \<subseteq> X
          \<and> (\<forall>buf. outPixels (snd res) = Some buf \<longrightarrow> set buf \<subseteq> X)"
        by (rule mp [OF mp])
    qed
  qed
  then show ?thesis
    using sX vX by (rule mp [OF mp])
qed

text \<open>
  The status of the loop and the native buffer it leaves depend on the native buffer only,
  not on whether that buffer is a copy.
\<close>

lemma binarize_loop_agree:
  assumes a0: "outPixels s2 = outPixels s"
  shows "fst (binarize_loop J2 (data (gray2rgba m)) i n s2)
       = fst (binarize_loop J (data (gray2rgba m)) i n s)
    \<and> outPixels (snd (binarize_loop J2 (data (gray2rgba m)) i n s2))
       = outPixels (snd (binarize_loop J (data (gray2rgba m)) i n s))"
proof -
  let ?run = "binarize_loop J (data (gray2rgba m))"
  let ?run2 = "binarize_loop J2 (data (gray2rgba m))"
  let ?Q = "\<lambda>(i :: nat) (s2 :: jni_state) (res :: unit res \<times> jni_state).
      fst (?run2 i n s2) = fst res
      \<and> outPixels (snd (?run2 i n s2)) = outPixels (snd res)"
  let ?P = "\<lambda>(i :: nat) (s :: jni_state) (res :: unit res \<times> jni_state).
      \<forall>s2. outPixels s2 = outPixels s \<longrightarrow> ?Q i s2 res"
  have "?P i s (?run i n s)"
  proof (rule binarize_loop_rule [where P = ?P])
    fix i and s :: jni_state
    assume n: "\<not> i < n"
    show "?P i s (Ok (), s)"
    proof (intro allI impI)
      fix s2 :: jni_state
      assume a: "outPixels s2 = outPixels s"
      have "?run2 i n s2 = (Ok (), s2)"
        using n by (subst binarize_loop_step) simp
      then show "?Q i s2 (Ok (), s)"
        using a by simp
    qed
  next
    fix i and s :: jni_state
    assume lt: "i < n"
      and c: "\<not> (i < length (data m) \<and> (\<exists>buf. outPixels s = Some buf \<and> i < length buf))"
    show "?P i s (UB, s)"
    proof (intro allI impI)
      fix s2 :: jni_state
      assume a: "outPixels s2 = outPixels s"
      have "?run2 i n s2 = (UB, s2)"
      proof (cases "i < length (data m)")
        case False
        with lt show ?thesis by (subst binarize_loop_step) simp
      next
        case True
        with c have "\<not> (\<exists>buf. outPixels s = Some buf \<and> i < length buf)" by simp
        with a have "store_outPixels J2 i 0xFF000000 s2 = (UB, s2)"
          by (cases "outPixels s") (simp_all add: store_outPixels_def)
        with lt True show ?thesis by (subst binarize_loop_step) simp
      qed
      then show "?Q i s2 (UB, s)"
        using a by simp
    qed
  next
    fix i buf and s :: jni_state and res :: "unit res \<times> jni_state"
    assume lt: "i < n" and im: "i < length (data m)" and buf: "outPixels s = Some buf"
      and ib: "i < length buf"
      and IH: "?P (Suc i) (stored J i buf s) res"
    show "?P i s res"
    proof (intro allI impI)
      fix s2 :: jni_state
      assume a: "outPixels s2 = outPixels s"
      have "store_outPixels J2 i 0xFF000000 s2 = (Ok (), stored J2 i buf s2)"
        using buf ib a by (simp add: store_outPixels_def stored_def)
      with lt im have eq: "?run2 i n s2 = ?run2 (Suc i) n (stored J2 i buf s2)"
        by (subst binarize_loop_step) simp
      have 1: "outPixels (stored J2 i buf s2) = outPixels (stored J i buf s)"
        by (simp add: stored_def)
      from IH [THEN spec, THEN mp, OF 1]
      show "?Q i s2 res"
        by (simp only: eq)
    qed
  qed
  from this [THEN spec, THEN mp, OF a0]
  show ?thesis .
qed

subsection \<open>The paths through processFrame\<close>

lemma convert_to_edges_frame:
  assumes "convert_to_edges L w h s = (r, s')"
  shows "yuvData s' = yuvData s \<and> outputBuffer s' = outputBuffer s
    \<and> yuvBytes s' = yuvBytes s \<and> outPixels s' = outPixels s"
  using assms
  by (auto simp add: convert_to_edges_def bindP_def Mat_over_yuvBytes_def cvtColor_def
      GaussianBlur_def Canny_def split: option.splits prod.splits res.splits)

lemma convert_to_edges_Ok:
  assumes "convert_to_edges L w h s = (Ok rgba, s')"
  shows "\<exists>buf bgr gray blurred edges.
     yuvBytes s = Some buf \<and>
     cvtColor_result L (yuvMat_of w h buf) COLOR_YUV2BGR_NV21 = Ok bgr \<and>
     cvtColor_result L bgr COLOR_BGR2GRAY = Ok gray \<and>
     gaussian_blur L gray (5, 5) 1.5 = Inr blurred \<and>
     canny L blurred 50 150 = Inr edges \<and>
     cvtColor_result L edges COLOR_GRAY2RGBA = Ok rgba \<and>
     trace s' = trace s @ [Ev_cvtColor (yuvMat_of w h buf) COLOR_YUV2BGR_NV21,
        Ev_cvtColor bgr COLOR_BGR2GRAY, Ev_GaussianBlur gray (5, 5) 1.5,
        Ev_Canny blurred 50 150, Ev_cvtColor edges COLOR_GRAY2RGBA]"
  using assms
  by (auto simp add: convert_to_edges_def bindP_def Mat_over_yuvBytes_def cvtColor_def
      GaussianBlur_def Canny_def of_sum_def yuvMat_of_def
      split: option.splits prod.splits res.splits sum.splits)

lemma cvtColor_GRAY2RGBA_Ok:
  "cvtColor_result L edges COLOR_GRAY2RGBA = Ok rgba \<Longrightarrow>
   rgba = gray2rgba edges \<and> channels edges = 1 \<and> \<not> Mat_empty edges"
  by (auto simp: cvtColor_result_def split: if_splits)

lemma try_block_unfold:
  "try_block L J w h s =
     (if \<not> yuv_available J \<or> \<not> out_available J then
        bindP (LOGE ''Failed to get array elements'') (\<lambda>_.
        bindP (if yuv_available J then ReleaseByteArrayElements JNI_ABORT else return ()) (\<lambda>_.
        bindP (if out_available J then ReleaseIntArrayElements JNI_ABORT else return ()) (\<lambda>_.
        return (- 1)))) (acquired J s)
      else
        bindP (convert_to_edges L w h) (\<lambda>rgbaMat.
        bindP (binarize_loop J (data rgbaMat) 0 (nat (sint (w * h)))) (\<lambda>_.
        bindP (ReleaseByteArrayElements JNI_ABORT) (\<lambda>_.
        bindP (ReleaseIntArrayElements MODE_0) (\<lambda>_.
        return 0)))) (acquired J s))"
  by (simp add: try_block_def bindP_def GetByteArrayElements_def GetIntArrayElements_def
      acquired_def)

lemma acquired_fields [simp]:
  "yuvData (acquired J s) = yuvData s"
  "outputBuffer (acquired J s) = outputBuffer s"
  "yuvBytes (acquired J s) = (if yuv_available J then Some (yuvData s) else None)"
  "outPixels (acquired J s) = (if out_available J then Some (outputBuffer s) else None)"
  "trace (acquired J s) = trace s @ [Ev_GetByteArrayElements, Ev_GetIntArrayElements]"
  by (simp_all add: acquired_def)

lemma processFrame_input_error:
  assumes "\<not> yuv_available J \<or> \<not> out_available J"
  shows "processFrame L J w h s =
     (Returned (- 1),
      s\<lparr>yuvBytes := None, outPixels := None,
        trace := trace s @ [Ev_GetByteArrayElements, Ev_GetIntArrayElements,
                           Ev_LOGE ''Failed to get array elements'']
           @ (if yuv_available J then [Ev_ReleaseByteArrayElements JNI_ABORT] else [])
           @ (if out_available J then [Ev_ReleaseIntArrayElements JNI_ABORT] else [])\<rparr>)"
  using assms
  by (auto simp add: processFrame_def try_block_unfold bindP_def LOGE_def return_def
      ReleaseByteArrayElements_def ReleaseIntArrayElements_def acquired_def log_event_def)

lemma processFrame_library_failure:
  assumes "yuv_available J" and "out_available J"
    and "convert_to_edges L w h (acquired J s) = (r, s3)" and "\<forall>m. r \<noteq> Ok m"
  shows "processFrame L J w h s =
     (case r of
        Thrown cv_Exception \<Rightarrow> (Returned (- 1), log_event (Ev_LOGE ''OpenCV exception'') s3)
      | Thrown other_exception \<Rightarrow>
          (Returned (- 1), log_event (Ev_LOGE ''Unknown exception in edge detection'') s3)
      | UB \<Rightarrow> (Undefined, s3)
      | Ok m \<Rightarrow> (Undefined, s3))"
  using assms
  by (cases r) (auto simp add: processFrame_def try_block_unfold bindP_def split: thrown.splits)

lemma processFrame_loop_ub:
  assumes "yuv_available J" and "out_available J"
    and "convert_to_edges L w h (acquired J s) = (Ok (gray2rgba edges), s3)"
    and "binarize_loop J (data (gray2rgba edges)) 0 (nat (sint (w * h))) s3 = (UB, s4)"
  shows "processFrame L J w h s = (Undefined, s4)"
  using assms
  by (simp add: processFrame_def try_block_unfold bindP_def)

lemma processFrame_loop_ok:
  assumes "yuv_available J" and "out_available J"
    and "convert_to_edges L w h (acquired J s) = (Ok (gray2rgba edges), s3)"
    and "binarize_loop J (data (gray2rgba edges)) 0 (nat (sint (w * h))) s3 = (Ok u, s4)"
    and "outPixels s4 = Some buf"
  shows "processFrame L J w h s = (Returned 0, released buf s4)"
proof -
  have "yuvBytes s3 = Some (yuvData s)"
    using convert_to_edges_frame [OF assms(3)] assms(1) by simp
  then have "yuvBytes s4 = Some (yuvData s)"
    using binarize_loop_frame [OF assms(4)] by simp
  then show ?thesis
    using assms
    by (simp add: processFrame_def try_block_unfold bindP_def return_def
        ReleaseByteArrayElements_def ReleaseIntArrayElements_def released_def log_event_def)
qed


lemma processFrame_cases [case_names input_error library_failure loop_ub success]:
  obtains
    (input_error) "\<not> yuv_available J \<or> \<not> out_available J"
  | (library_failure) r s3 where "yuv_available J" and "out_available J"
      and "convert_to_edges L w h (acquired J s) = (r, s3)" and "\<forall>m. r \<noteq> Ok m"
  | (loop_ub) edges s3 s4 where "yuv_available J" and "out_available J"
      and "convert_to_edges L w h (acquired J s) = (Ok (gray2rgba edges), s3)"
      and "binarize_loop J (data (gray2rgba edges)) 0 (nat (sint (w * h))) s3 = (UB, s4)"
  | (success) edges s3 s4 buf where "yuv_available J" and "out_available J"
      and "convert_to_edges L w h (acquired J s) = (Ok (gray2rgba edges), s3)"
      and "binarize_loop J (data (gray2rgba edges)) 0 (nat (sint (w * h))) s3 = (Ok (), s4)"
      and "outPixels s4 = Some buf"
proof (cases "yuv_available J \<and> out_available J")
  case False
  then show ?thesis using input_error by blast
next
  case True
  then have ya: "yuv_available J" and oa: "out_available J" by simp_all
  obtain r s3 where c: "convert_to_edges L w h (acquired J s) = (r, s3)"
    by (cases "convert_to_edges L w h (acquired J s)")
  show ?thesis
  proof (cases "\<exists>rgba. r = Ok rgba")
    case False
    then show ?thesis using library_failure [OF ya oa c] by blast
  next
    case True
    then obtain rgba where r: "r = Ok rgba" by blast
    from convert_to_edges_Ok [OF c [unfolded r]] obtain edges
      where "cvtColor_result L edges COLOR_GRAY2RGBA = Ok rgba" by blast
    then have rgba: "rgba = gray2rgba edges"
      using cvtColor_GRAY2RGBA_Ok by blast
    have c': "convert_to_edges L w h (acquired J s) = (Ok (gray2rgba edges), s3)"
      using c r rgba by simp
    obtain r4 s4
      where l: "binarize_loop J (data (gray2rgba edges)) 0 (nat (sint (w * h))) s3 = (r4, s4)"
      by (cases "binarize_loop J (data (gray2rgba edges)) 0 (nat (sint (w * h))) s3")
    have "outPixels s3 = Some (outputBuffer s)"
      using convert_to_edges_frame [OF c] oa by simp
    then have "outPixels s4 \<noteq> None"
      using binarize_loop_frame [OF l] by simp
    then obtain buf where buf: "outPixels s4 = Some buf" by blast
    from binarize_loop_frame [OF l] have "r4 = Ok () \<or> r4 = UB" by simp
    then show ?thesis
    proof
      assume "r4 = Ok ()"
      with l buf show ?thesis using success [OF ya oa c'] by simp
    next
      assume "r4 = UB"
      with l show ?thesis using loop_ub [OF ya oa c'] by simp
    qed
  qed
qed

text \<open>No path writes to the frame.\<close>

lemma processFrame_yuvData:
  "yuvData (snd (processFrame L J w h s)) = yuvData s"
proof (cases rule: processFrame_cases [where J = J and L = L and w = w and h = h and s = s])
  case input_error
  then show ?thesis by (simp add: processFrame_input_error)
next
  case (library_failure r s3)
  from convert_to_edges_frame [OF library_failure(3)] show ?thesis
    by (simp add: processFrame_library_failure [OF library_failure]
        split: res.splits thrown.splits)
next
  case (loop_ub edges s3 s4)
  from convert_to_edges_frame [OF loop_ub(3)] binarize_loop_frame [OF loop_ub(4)]
  show ?thesis
    by (simp add: processFrame_loop_ub [OF loop_ub])
next
  case (success edges s3 s4 buf)
  from convert_to_edges_frame [OF success(3)] binarize_loop_frame [OF success(4)]
  show ?thesis
    by (simp add: processFrame_loop_ok [OF success] released_def)
qed

text \<open>Whatever the path, the only value ever stored is the black pixel.\<close>

lemma processFrame_values:
  "set (outputBuffer (snd (processFrame L J w h s))) \<subseteq> insert 0xFF000000 (set (outputBuffer s))"
proof (cases rule: processFrame_cases [where J = J and L = L and w = w and h = h and s = s])
  case input_error
  then show ?thesis by (auto simp add: processFrame_input_error)
next
  case (library_failure r s3)
  from convert_to_edges_frame [OF library_failure(3)] show ?thesis
    by (auto simp add: processFrame_library_failure [OF library_failure]
        split: res.splits thrown.splits)
next
  case (loop_ub edges s3 s4)
  let ?X = "insert 0xFF000000 (set (outputBuffer s))"
  from convert_to_edges_frame [OF loop_ub(3)]
  have "set (outputBuffer s3) \<subseteq> ?X" and "\<forall>buf. outPixels s3 = Some buf \<longrightarrow> set buf \<subseteq> ?X"
    by (auto split: if_splits)
  from binarize_loop_values [OF _ this, of J edges 0 "nat (sint (w * h))"] loop_ub(4)
  show ?thesis
    by (simp add: processFrame_loop_ub [OF loop_ub])
next
  case (success edges s3 s4 buf)
  let ?X = "insert 0xFF000000 (set (outputBuffer s))"
  from convert_to_edges_frame [OF success(3)]
  have "set (outputBuffer s3) \<subseteq> ?X" and "\<forall>buf. outPixels s3 = Some buf \<longrightarrow> set buf \<subseteq> ?X"
    by (auto split: if_splits)
  from binarize_loop_values [OF _ this, of J edges 0 "nat (sint (w * h))"] success(4,5)
  show ?thesis
    by (simp add: processFrame_loop_ok [OF success] released_def)
qed

text \<open>What a return of 0 tells.\<close>

lemma processFrame_success:
  assumes "processFrame L J w h s = (Returned 0, s')"
  shows "yuv_available J \<and> out_available J \<and>
    (\<exists>bgr gray blurred edges.
       cvtColor_result L (yuvMat_of w h (yuvData s)) COLOR_YUV2BGR_NV21 = Ok bgr \<and>
       cvtColor_result L bgr COLOR_BGR2GRAY = Ok gray \<and>
       gaussian_blur L gray (5, 5) 1.5 = Inr blurred \<and>
       canny L blurred 50 150 = Inr edges \<and>
       trace s' = trace s @ [Ev_GetByteArrayElements, Ev_GetIntArrayElements,
          Ev_cvtColor (yuvMat_of w h (yuvData s)) COLOR_YUV2BGR_NV21,
          Ev_cvtColor bgr COLOR_BGR2GRAY, Ev_GaussianBlur gray (5, 5) 1.5,
          Ev_Canny blurred 50 150, Ev_cvtColor edges COLOR_GRAY2RGBA,
          Ev_ReleaseByteArrayElements JNI_ABORT, Ev_ReleaseIntArrayElements MODE_0]) \<and>
    length (outputBuffer s') = length (outputBuffer s) \<and>
    nat (sint (w * h)) \<le> length (outputBuffer s) \<and>
    (\<forall>j<length (outputBuffer s). outputBuffer s' ! j =
        (if j < nat (sint (w * h)) then 0xFF000000 else outputBuffer s ! j)) \<and>
    yuvData s' = yuvData s \<and> yuvBytes s' = None \<and> outPixels s' = None"
proof (cases rule: processFrame_cases [where J = J and L = L and w = w and h = h and s = s])
  case input_error
  with assms show ?thesis by (simp add: processFrame_input_error)
next
  case (library_failure r s3)
  with assms show ?thesis
    by (simp add: processFrame_library_failure [OF library_failure]
        split: res.splits thrown.splits)
next
  case (loop_ub edges s3 s4)
  with assms show ?thesis
    by (simp add: processFrame_loop_ub [OF loop_ub])
next
  case (success edges s3 s4 buf)
  from assms have s': "s' = released buf s4"
    by (simp add: processFrame_loop_ok [OF success])
  from convert_to_edges_Ok [OF success(3)] obtain bgr gray blurred e
    where st: "cvtColor_result L (yuvMat_of w h (yuvData s)) COLOR_YUV2BGR_NV21 = Ok bgr"
      "cvtColor_result L bgr COLOR_BGR2GRAY = Ok gray"
      "gaussian_blur L gray (5, 5) 1.5 = Inr blurred"
      "canny L blurred 50 150 = Inr e"
      "cvtColor_result L e COLOR_GRAY2RGBA = Ok (gray2rgba edges)"
      and tr: "trace s3 = trace (acquired J s) @
        [Ev_cvtColor (yuvMat_of w h (yuvData s)) COLOR_YUV2BGR_NV21,
         Ev_cvtColor bgr COLOR_BGR2GRAY, Ev_GaussianBlur gray (5, 5) 1.5,
         Ev_Canny blurred 50 150, Ev_cvtColor e COLOR_GRAY2RGBA]"
    using success(1) by auto
  have s3: "outPixels s3 = Some (outputBuffer s)" "yuvData s3 = yuvData s"
    using convert_to_edges_frame [OF success(3)] success(2) by simp_all
  from binarize_loop_Ok [OF success(4) s3(1)] success(5)
  have buf: "length buf = length (outputBuffer s)"
    "\<forall>j<length (outputBuffer s). buf ! j =
        (if j < nat (sint (w * h)) then 0xFF000000 else outputBuffer s ! j)"
    by auto
  have fr: "yuvData s4 = yuvData s" "trace s4 = trace s3"
    using binarize_loop_frame [OF success(4)] s3 by simp_all
  have le: "nat (sint (w * h)) \<le> length (outputBuffer s)"
  proof (cases "0 < nat (sint (w * h))")
    case True
    from binarize_loop_Ok_bounds [OF success(4) True s3(1)] show ?thesis by simp
  next
    case False
    then show ?thesis by simp
  qed
  show ?thesis
    using success(1,2) st tr buf fr le
    by (auto simp add: s' released_def)
qed


text \<open>The library part of the function computes the spec's four stages, then the RGBA rendering.\<close>

lemma convert_to_edges_result:
  assumes "yuvBytes s = Some buf"
  shows "fst (convert_to_edges L w h s) =
     bind_res (four_stage_edge_mask L (yuvMat_of w h buf))
       (\<lambda>edges. cvtColor_result L edges COLOR_GRAY2RGBA)"
  using assms
  by (auto simp add: convert_to_edges_def bindP_def Mat_over_yuvBytes_def cvtColor_def
      GaussianBlur_def Canny_def of_sum_def yuvMat_of_def four_stage_edge_mask_def bind_res_def
      split: option.splits prod.splits res.splits sum.splits)

lemma convert_to_edges_agree:
  assumes "yuvBytes s2 = yuvBytes s"
  shows "fst (convert_to_edges L w h s2) = fst (convert_to_edges L w h s)"
  using assms
  by (auto simp add: convert_to_edges_def bindP_def Mat_over_yuvBytes_def cvtColor_def
      GaussianBlur_def Canny_def split: option.splits prod.splits res.splits)

lemma processFrame_returns_0:
  assumes ya: "yuv_available J" and oa: "out_available J"
    and mask: "four_stage_edge_mask L (yuvMat_of w h (yuvData s)) = Ok edges"
    and ch: "channels edges = 1" and ne: "\<not> Mat_empty edges"
    and le: "nat (sint (w * h)) \<le> length (data edges)"
    and lo: "nat (sint (w * h)) \<le> length (outputBuffer s)"
  shows "fst (processFrame L J w h s) = Returned 0"
proof -
  obtain r s3 where c: "convert_to_edges L w h (acquired J s) = (r, s3)"
    by (cases "convert_to_edges L w h (acquired J s)")
  have "yuvBytes (acquired J s) = Some (yuvData s)"
    using ya by simp
  from convert_to_edges_result [OF this, of L w h] c mask ch ne
  have r: "r = Ok (gray2rgba edges)"
    by (simp add: bind_res_def cvtColor_result_def)
  have o3: "outPixels s3 = Some (outputBuffer s)"
    using convert_to_edges_frame [OF c] oa by simp
  obtain r4 s4
    where l: "binarize_loop J (data (gray2rgba edges)) 0 (nat (sint (w * h))) s3 = (r4, s4)"
    by (cases "binarize_loop J (data (gray2rgba edges)) 0 (nat (sint (w * h))) s3")
  from binarize_loop_succeeds [OF o3 lo le, of J 0] l have r4: "r4 = Ok ()"
    by simp
  have "outPixels s4 \<noteq> None"
    using binarize_loop_frame [OF l] o3 by simp
  then obtain buf where "outPixels s4 = Some buf" by blast
  from processFrame_loop_ok [OF ya oa c [unfolded r] l [unfolded r4] this]
  show ?thesis by simp
qed

text \<open>An empty frame matrix: the first conversion raises and the catch clause answers.\<close>

lemma Mat_empty_yuvMat_of:
  "w = 0 \<or> h = 0 \<Longrightarrow> Mat_empty (yuvMat_of w h buf)"
  by (auto simp add: Mat_empty_def yuvMat_of_def Mat_header_def jint_div_def)

lemma processFrame_empty:
  assumes "w = 0 \<or> h = 0"
  shows "fst (processFrame L J w h s) = Returned (- 1)"
proof (cases "yuv_available J \<and> out_available J")
  case False
  then show ?thesis by (simp add: processFrame_input_error)
next
  case True
  then have ya: "yuv_available J" and oa: "out_available J" by simp_all
  obtain r s3 where c: "convert_to_edges L w h (acquired J s) = (r, s3)"
    by (cases "convert_to_edges L w h (acquired J s)")
  have "yuvBytes (acquired J s) = Some (yuvData s)"
    using ya by simp
  from convert_to_edges_result [OF this, of L w h] c Mat_empty_yuvMat_of [OF assms]
  have r: "r = Thrown cv_Exception"
    by (simp add: bind_res_def four_stage_edge_mask_def cvtColor_result_def)
  then have "\<forall>m. r \<noteq> Ok m" by simp
  from processFrame_library_failure [OF ya oa c this] r show ?thesis by simp
qed

text \<open>
  The status depends on the contents of the two arrays and on which buffers the JVM lends
  out; so does the output array of a call that returns. The trace, what the native pointers
  held before the call, and whether the output buffer is a copy play no part.
\<close>

lemma processFrame_agree:
  assumes y: "yuvData s2 = yuvData s" and o: "outputBuffer s2 = outputBuffer s"
    and ya: "yuv_available J2 = yuv_available J" and oa: "out_available J2 = out_available J"
  shows "fst (processFrame L J2 w h s2) = fst (processFrame L J w h s)"
    and "fst (processFrame L J w h s) = Returned status \<Longrightarrow>
      outputBuffer (snd (processFrame L J2 w h s2)) = outputBuffer (snd (processFrame L J w h s))"
proof -
  have "fst (processFrame L J2 w h s2) = fst (processFrame L J w h s)
    \<and> (fst (processFrame L J w h s) = Returned status \<longrightarrow>
      outputBuffer (snd (processFrame L J2 w h s2)) = outputBuffer (snd (processFrame L J w h s)))"
  proof (cases rule: processFrame_cases [where J = J and L = L and w = w and h = h and s = s])
    case input_error
    then have "\<not> yuv_available J2 \<or> \<not> out_available J2"
      using ya oa by simp
    with input_error show ?thesis
      using o by (simp add: processFrame_input_error)
  next
    case (library_failure r s3)
    have ya2: "yuv_available J2" and oa2: "out_available J2"
      using library_failure(1,2) ya oa by simp_all
    obtain r' s3' where c2: "convert_to_edges L w h (acquired J2 s2) = (r', s3')"
      by (cases "convert_to_edges L w h (acquired J2 s2)")
    have "yuvBytes (acquired J2 s2) = yuvBytes (acquired J s)"
      using y ya by simp
    from convert_to_edges_agree [OF this, of L w h] c2 library_failure(3)
    have r': "r' = r" by simp
    have fr: "outputBuffer s3 = outputBuffer s" "outputBuffer s3' = outputBuffer s2"
      using convert_to_edges_frame [OF library_failure(3)] convert_to_edges_frame [OF c2]
      by simp_all
    show ?thesis
      using fr o
      by (simp add: processFrame_library_failure [OF library_failure]
          processFrame_library_failure [OF ya2 oa2 c2 [unfolded r'] library_failure(4)]
          split: res.splits thrown.splits)
  next
    case (loop_ub edges s3 s4)
    have ya2: "yuv_available J2" and oa2: "out_available J2"
      using loop_ub(1,2) ya oa by simp_all
    obtain r' s3' where c2: "convert_to_edges L w h (acquired J2 s2) = (r', s3')"
      by (cases "convert_to_edges L w h (acquired J2 s2)")
    have "yuvBytes (acquired J2 s2) = yuvBytes (acquired J s)"
      using y ya by simp
    from convert_to_edges_agree [OF this, of L w h] c2 loop_ub(3)
    have r': "r' = Ok (gray2rgba edges)" by simp
    have fr: "outPixels s3' = outPixels s3"
      using convert_to_edges_frame [OF loop_ub(3)] convert_to_edges_frame [OF c2] o oa
      by simp
    obtain r4 s4'
      where l2: "binarize_loop J2 (data (gray2rgba edges)) 0 (nat (sint (w * h))) s3' = (r4, s4')"
      by (cases "binarize_loop J2 (data (gray2rgba edges)) 0 (nat (sint (w * h))) s3'")
    from binarize_loop_agree [OF fr, of J2 edges 0 "nat (sint (w * h))" J] l2 loop_ub(4)
    have "r4 = UB" by simp
    then show ?thesis
      using l2
      by (simp add: processFrame_loop_ub [OF loop_ub]
          processFrame_loop_ub [OF ya2 oa2 c2 [unfolded r']])
  next
    case (success edges s3 s4 buf)
    have ya2: "yuv_available J2" and oa2: "out_available J2"
      using success(1,2) ya oa by simp_all
    obtain r' s3' where c2: "convert_to_edges L w h (acquired J2 s2) = (r', s3')"
      by (cases "convert_to_edges L w h (acquired J2 s2)")
    have "yuvBytes (acquired J2 s2) = yuvBytes (acquired J s)"
      using y ya by simp
    from convert_to_edges_agree [OF this, of L w h] c2 success(3)
    have r': "r' = Ok (gray2rgba edges)" by simp
    have fr: "outPixels s3' = outPixels s3"
      using convert_to_edges_frame [OF success(3)] convert_to_edges_frame [OF c2] o oa
      by simp
    obtain r4 s4'
      where l2: "binarize_loop J2 (data (gray2rgba edges)) 0 (nat (sint (w * h))) s3' = (r4, s4')"
      by (cases "binarize_loop J2 (data (gray2rgba edges)) 0 (nat (sint (w * h))) s3'")
    from binarize_loop_agree [OF fr, of J2 edges 0 "nat (sint (w * h))" J] l2 success(4,5)
    have "r4 = Ok ()" and "outPixels s4' = Some buf" by simp_all
    then show ?thesis
      using l2
      by (simp add: processFrame_loop_ok [OF success]
          processFrame_loop_ok [OF ya2 oa2 c2 [unfolded r']] released_def)
  qed
  then show "fst (processFrame L J2 w h s2) = fst (processFrame L J w h s)"
    and "fst (processFrame L J w h s) = Returned status \<Longrightarrow>
      outputBuffer (snd (processFrame L J2 w h s2)) = outputBuffer (snd (processFrame L J w h s))"
    by simp_all
qed

subsection \<open>The stand-in library on the concrete frames\<close>

lemma demo_mask_2x2:
  "four_stage_edge_mask demo_lib (yuvMat_of 2 2 frame_2x2) =
     Ok \<lparr>rows = 2, cols = 2, channels = 1, data = [0, 255, 0, 255]\<rparr>"
  by (simp add: four_stage_edge_mask_def bind_res_def cvtColor_result_def Mat_empty_def
      Mat_fits_def yuvMat_of_def Mat_header_def jint_div_def of_sum_def demo_lib_def frame_2x2_def)

lemma demo_mask_4x4:
  "four_stage_edge_mask demo_lib (yuvMat_of 4 4 frame_4x4) =
     Ok \<lparr>rows = 4, cols = 4, channels = 1,
         data = [0, 0, 255, 255, 0, 0, 255, 255, 0, 0, 255, 255, 0, 0, 255, 255]\<rparr>"
  by (simp add: four_stage_edge_mask_def bind_res_def cvtColor_result_def Mat_empty_def
      Mat_fits_def yuvMat_of_def Mat_header_def jint_div_def of_sum_def demo_lib_def frame_4x4_def)

lemma demo_2x2_returns_0:
  "fst (processFrame demo_lib jvm_ok 2 2 (entry_state frame_2x2 4)) = Returned 0"
  by (rule processFrame_returns_0
        [where edges = "\<lparr>rows = 2, cols = 2, channels = 1, data = [0, 255, 0, 255]\<rparr>"])
     (simp_all add: jvm_ok_def entry_state_def demo_mask_2x2 Mat_empty_def)

lemma demo_4x4_returns_0:
  "fst (processFrame demo_lib jvm_ok 4 4 (entry_state frame_4x4 16)) = Returned 0"
  by (rule processFrame_returns_0
        [where edges = "\<lparr>rows = 4, cols = 4, channels = 1,
           data = [0, 0, 255, 255, 0, 0, 255, 255, 0, 0, 255, 255, 0, 0, 255, 255]\<rparr>"])
     (simp_all add: jvm_ok_def entry_state_def demo_mask_4x4 Mat_empty_def)

lemma demo_exception:
  "processFrame demo_lib jvm_ok 0 2 (entry_state frame_2x2 4) =
     (Returned (- 1),
      \<lparr>yuvData = frame_2x2, outputBuffer = replicate 4 0, yuvBytes = Some frame_2x2,
       outPixels = Some (replicate 4 0),
       trace = [Ev_GetByteArrayElements, Ev_GetIntArrayElements,
                Ev_cvtColor (yuvMat_of 0 2 frame_2x2) COLOR_YUV2BGR_NV21,
                Ev_LOGE ''OpenCV exception'']\<rparr>)"
  by (simp add: processFrame_def try_block_def bindP_def GetByteArrayElements_def
      GetIntArrayElements_def convert_to_edges_def Mat_over_yuvBytes_def cvtColor_def
      cvtColor_result_def Mat_empty_def yuvMat_of_def Mat_header_def log_event_def
      jvm_ok_def entry_state_def)




lemma cv_calls_append [simp]: "cv_calls (xs @ ys) = cv_calls xs @ cv_calls ys"
  by (simp add: cv_calls_def)

text \<open>The library calls of a successful call: the four stages, then the RGBA rendering.\<close>

lemma processFrame_cv_calls:
  assumes "fst (processFrame L J w h s) = Returned 0"
  shows "\<exists>bgr gray blurred edges.
     cvtColor_result L (yuvMat_of w h (yuvData s)) COLOR_YUV2BGR_NV21 = Ok bgr \<and>
     cvtColor_result L bgr COLOR_BGR2GRAY = Ok gray \<and>
     gaussian_blur L gray (5, 5) 1.5 = Inr blurred \<and>
     canny L blurred 50 150 = Inr edges \<and>
     four_stage_edge_mask L (yuvMat_of w h (yuvData s)) = Ok edges \<and>
     cv_calls (trace (snd (processFrame L J w h s))) =
       cv_calls (trace s) @
       [Ev_cvtColor (yuvMat_of w h (yuvData s)) COLOR_YUV2BGR_NV21,
        Ev_cvtColor bgr COLOR_BGR2GRAY, Ev_GaussianBlur gray (5, 5) 1.5,
        Ev_Canny blurred 50 150, Ev_cvtColor edges COLOR_GRAY2RGBA]"
proof -
  have "processFrame L J w h s = (Returned 0, snd (processFrame L J w h s))"
    using assms by (simp add: prod_eq_iff)
  from processFrame_success [OF this] obtain bgr gray blurred edges
    where st: "cvtColor_result L (yuvMat_of w h (yuvData s)) COLOR_YUV2BGR_NV21 = Ok bgr"
      "cvtColor_result L bgr COLOR_BGR2GRAY = Ok gray"
      "gaussian_blur L gray (5, 5) 1.5 = Inr blurred"
      "canny L blurred 50 150 = Inr edges"
    and tr: "trace (snd (processFrame L J w h s)) =
       trace s @ [Ev_GetByteArrayElements, Ev_GetIntArrayElements,
          Ev_cvtColor (yuvMat_of w h (yuvData s)) COLOR_YUV2BGR_NV21,
          Ev_cvtColor bgr COLOR_BGR2GRAY, Ev_GaussianBlur gray (5, 5) 1.5,
          Ev_Canny blurred 50 150, Ev_cvtColor edges COLOR_GRAY2RGBA,
          Ev_ReleaseByteArrayElements JNI_ABORT, Ev_ReleaseIntArrayElements MODE_0]"
    by blast
  have mask: "four_stage_edge_mask L (yuvMat_of w h (yuvData s)) = Ok edges"
    using st by (simp add: four_stage_edge_mask_def bind_res_def of_sum_def)
  have "cv_calls (trace (snd (processFrame L J w h s))) =
       cv_calls (trace s) @
       [Ev_cvtColor (yuvMat_of w h (yuvData s)) COLOR_YUV2BGR_NV21,
        Ev_cvtColor bgr COLOR_BGR2GRAY, Ev_GaussianBlur gray (5, 5) 1.5,
        Ev_Canny blurred 50 150, Ev_cvtColor edges COLOR_GRAY2RGBA]"
    unfolding tr by (simp add: cv_calls_def is_cv_call_def)
  with st mask show ?thesis by blast
qed

lemma demo_stages_2x2:
  "cvtColor_result demo_lib (yuvMat_of 2 2 frame_2x2) COLOR_YUV2BGR_NV21 =
     Ok \<lparr>rows = 2, cols = 2, channels = 3,
         data = [0, 0, 0, 255, 255, 255, 0, 0, 0, 255, 255, 255]\<rparr>"
  "cvtColor_result demo_lib
     \<lparr>rows = 2, cols = 2, channels = 3,
      data = [0, 0, 0, 255, 255, 255, 0, 0, 0, 255, 255, 255]\<rparr> COLOR_BGR2GRAY =
     Ok \<lparr>rows = 2, cols = 2, channels = 1, data = [0, 255, 0, 255]\<rparr>"
  "gaussian_blur demo_lib \<lparr>rows = 2, cols = 2, channels = 1, data = [0, 255, 0, 255]\<rparr>
     (5, 5) 1.5 = Inr \<lparr>rows = 2, cols = 2, channels = 1, data = [0, 255, 0, 255]\<rparr>"
  "canny demo_lib \<lparr>rows = 2, cols = 2, channels = 1, data = [0, 255, 0, 255]\<rparr> 50 150 =
     Inr \<lparr>rows = 2, cols = 2, channels = 1, data = [0, 255, 0, 255]\<rparr>"
  by (simp_all add: cvtColor_result_def Mat_empty_def Mat_fits_def yuvMat_of_def Mat_header_def
      jint_div_def of_sum_def demo_lib_def frame_2x2_def)

lemma demo_cv_calls_2x2:
  "cv_calls (trace (snd (processFrame demo_lib jvm_ok 2 2 (entry_state frame_2x2 4)))) =
     [Ev_cvtColor (yuvMat_of 2 2 frame_2x2) COLOR_YUV2BGR_NV21,
      Ev_cvtColor \<lparr>rows = 2, cols = 2, channels = 3,
         data = [0, 0, 0, 255, 255, 255, 0, 0, 0, 255, 255, 255]\<rparr> COLOR_BGR2GRAY,
      Ev_GaussianBlur \<lparr>rows = 2, cols = 2, channels = 1, data = [0, 255, 0, 255]\<rparr> (5, 5) 1.5,
      Ev_Canny \<lparr>rows = 2, cols = 2, channels = 1, data = [0, 255, 0, 255]\<rparr> 50 150,
      Ev_cvtColor \<lparr>rows = 2, cols = 2, channels = 1, data = [0, 255, 0, 255]\<rparr>
        COLOR_GRAY2RGBA]"
proof -
  from processFrame_cv_calls [OF demo_2x2_returns_0] obtain bgr gray blurred edges
    where "cvtColor_result demo_lib (yuvMat_of 2 2 (yuvData (entry_state frame_2x2 4)))
             COLOR_YUV2BGR_NV21 = Ok bgr"
      and "cvtColor_result demo_lib bgr COLOR_BGR2GRAY = Ok gray"
      and "gaussian_blur demo_lib gray (5, 5) 1.5 = Inr blurred"
      and "canny demo_lib blurred 50 150 = Inr edges"
      and tr: "cv_calls (trace (snd (processFrame demo_lib jvm_ok 2 2 (entry_state frame_2x2 4)))) =
         cv_calls (trace (entry_state frame_2x2 4)) @
         [Ev_cvtColor (yuvMat_of 2 2 (yuvData (entry_state frame_2x2 4))) COLOR_YUV2BGR_NV21,
          Ev_cvtColor bgr COLOR_BGR2GRAY, Ev_GaussianBlur gray (5, 5) 1.5,
          Ev_Canny blurred 50 150, Ev_cvtColor edges COLOR_GRAY2RGBA]"
    by blast
  then have "bgr = \<lparr>rows = 2, cols = 2, channels = 3,
         data = [0, 0, 0, 255, 255, 255, 0, 0, 0, 255, 255, 255]\<rparr>"
    and "gray = \<lparr>rows = 2, cols = 2, channels = 1, data = [0, 255, 0, 255]\<rparr>"
    and "blurred = \<lparr>rows = 2, cols = 2, channels = 1, data = [0, 255, 0, 255]\<rparr>"
    and "edges = \<lparr>rows = 2, cols = 2, channels = 1, data = [0, 255, 0, 255]\<rparr>"
    using demo_stages_2x2 by (simp_all add: entry_state_def)
  with tr show ?thesis
    by (simp add: entry_state_def cv_calls_def)
qed

lemma demo_four_stage_calls_2x2:
  "four_stage_calls demo_lib (yuvMat_of 2 2 frame_2x2) =
     [Ev_cvtColor (yuvMat_of 2 2 frame_2x2) COLOR_YUV2BGR_NV21,
      Ev_cvtColor \<lparr>rows = 2, cols = 2, channels = 3,
         data = [0, 0, 0, 255, 255, 255, 0, 0, 0, 255, 255, 255]\<rparr> COLOR_BGR2GRAY,
      Ev_GaussianBlur \<lparr>rows = 2, cols = 2, channels = 1, data = [0, 255, 0, 255]\<rparr> (5, 5) 1.5,
      Ev_Canny \<lparr>rows = 2, cols = 2, channels = 1, data = [0, 255, 0, 255]\<rparr> 50 150]"
  by (simp add: four_stage_calls_def cvtColor_result_def Mat_empty_def Mat_fits_def yuvMat_of_def
      Mat_header_def jint_div_def of_sum_def demo_lib_def frame_2x2_def)

section \<open>The claims\<close>

text \<open>
  C4. For every call with \<open>width = 0\<close> or \<open>height = 0\<close> the function returns the
  failure status \<open>-1\<close>, and it does return: the frame matrix is empty, the first library
  call raises, and the catch clause maps the exception to the status. This holds whether or
  not the JVM lends the buffers out, and for every library.
\<close>

theorem zero_dimension_returns_failure:
  assumes "width = 0 \<or> height = 0"
  shows "fst (processFrame L J width height s) = Returned (- 1)"
  using assms by (rule processFrame_empty)

theorem zero_dimension_returns_failure_witness:
  "((0 :: jint) = 0 \<or> (2 :: jint) = 0)
   \<and> fst (processFrame demo_lib jvm_ok 0 2 (entry_state frame_2x2 4)) = Returned (- 1)"
proof -
  have h: "(0 :: jint) = 0 \<or> (2 :: jint) = 0" by simp
  from zero_dimension_returns_failure [OF h] h show ?thesis by simp
qed

text \<open>
  C5. The claim is that every exit path releases the borrowed buffers. The success path and
  the input-error path do; the two catch clauses do not, and cannot: the pointers are
  declared inside the \<^verbatim>\<open>try\<close> block. Evaluated at a call with width 0 (the library
  raises on the empty matrix): the function returns \<open>-1\<close> with both buffers still lent
  out, and the trace holds no release.
\<close>

theorem exception_path_leaves_buffers_held:
  "fst (processFrame demo_lib jvm_ok 0 2 (entry_state frame_2x2 4)) = Returned (- 1)
   \<and> yuvBytes (snd (processFrame demo_lib jvm_ok 0 2 (entry_state frame_2x2 4)))
       = Some frame_2x2
   \<and> outPixels (snd (processFrame demo_lib jvm_ok 0 2 (entry_state frame_2x2 4)))
       = Some [0, 0, 0, 0]
   \<and> trace (snd (processFrame demo_lib jvm_ok 0 2 (entry_state frame_2x2 4)))
       = [Ev_GetByteArrayElements, Ev_GetIntArrayElements,
          Ev_cvtColor (yuvMat_of 0 2 frame_2x2) COLOR_YUV2BGR_NV21,
          Ev_LOGE ''OpenCV exception'']"
  unfolding demo_exception by (simp add: numeral_eq_Suc)

text \<open>
  C6. Where the frame buffer or the output buffer cannot be obtained, the function returns
  \<open>-1\<close> and the call adds no library call to the trace.
\<close>

theorem unavailable_buffer_returns_failure:
  assumes "\<not> yuv_available J \<or> \<not> out_available J"
  shows "fst (processFrame L J width height s) = Returned (- 1)
    \<and> cv_calls (trace (snd (processFrame L J width height s))) = cv_calls (trace s)"
  using assms
  by (simp add: processFrame_input_error cv_calls_def is_cv_call_def)

theorem unavailable_buffer_returns_failure_witness:
  "\<not> out_available jvm_no_output
   \<and> fst (processFrame demo_lib jvm_no_output 2 2 (entry_state frame_2x2 4)) = Returned (- 1)
   \<and> cv_calls (trace (snd (processFrame demo_lib jvm_no_output 2 2 (entry_state frame_2x2 4))))
       = []"
proof -
  have h: "\<not> yuv_available jvm_no_output \<or> \<not> out_available jvm_no_output"
    by (simp add: jvm_no_output_def)
  from unavailable_buffer_returns_failure [OF h, of demo_lib 2 2 "entry_state frame_2x2 4"]
  show ?thesis
    by (simp add: entry_state_def cv_calls_def jvm_no_output_def)
qed

text \<open>
  C7. A call that returns leaves the contents of the frame array as they were; of the two
  arrays only the output array can differ afterwards.
\<close>

theorem frame_buffer_unchanged:
  assumes "fst (processFrame L J width height s) = Returned status"
  shows "yuvData (snd (processFrame L J width height s)) = yuvData s"
  by (rule processFrame_yuvData)

theorem frame_buffer_unchanged_witness:
  "fst (processFrame demo_lib jvm_ok 2 2 (entry_state frame_2x2 4)) = Returned 0
   \<and> yuvData (snd (processFrame demo_lib jvm_ok 2 2 (entry_state frame_2x2 4))) = frame_2x2"
  using frame_buffer_unchanged [OF demo_2x2_returns_0] demo_2x2_returns_0
  by (simp add: entry_state_def)

text \<open>
  C10. On the input-error path the output array is left as it was: nothing is stored,
  whichever buffer was obtained is released with \<^verbatim>\<open>JNI_ABORT\<close>, and no buffer stays lent
  out.
\<close>

theorem input_error_leaves_output_unchanged:
  assumes "\<not> yuv_available J \<or> \<not> out_available J"
  shows "outputBuffer (snd (processFrame L J width height s)) = outputBuffer s
    \<and> yuvBytes (snd (processFrame L J width height s)) = None
    \<and> outPixels (snd (processFrame L J width height s)) = None
    \<and> trace (snd (processFrame L J width height s)) =
        trace s @ [Ev_GetByteArrayElements, Ev_GetIntArrayElements,
                   Ev_LOGE ''Failed to get array elements'']
          @ (if yuv_available J then [Ev_ReleaseByteArrayElements JNI_ABORT] else [])
          @ (if out_available J then [Ev_ReleaseIntArrayElements JNI_ABORT] else [])"
  using assms
  by (simp add: processFrame_input_error)

theorem input_error_leaves_output_unchanged_witness:
  "\<not> out_available jvm_no_output
   \<and> outputBuffer (snd (processFrame demo_lib jvm_no_output 2 2 (entry_state frame_2x2 4)))
       = [0, 0, 0, 0]
   \<and> trace (snd (processFrame demo_lib jvm_no_output 2 2 (entry_state frame_2x2 4))) =
        [Ev_GetByteArrayElements, Ev_GetIntArrayElements,
         Ev_LOGE ''Failed to get array elements'', Ev_ReleaseByteArrayElements JNI_ABORT]"
proof -
  have h: "\<not> yuv_available jvm_no_output \<or> \<not> out_available jvm_no_output"
    by (simp add: jvm_no_output_def)
  from input_error_leaves_output_unchanged [OF h, of demo_lib 2 2 "entry_state frame_2x2 4"]
  show ?thesis
    by (simp add: entry_state_def jvm_no_output_def numeral_eq_Suc)
qed


text \<open>
  C1. The claim is that a successful call writes \<open>0xFFFFFFFF\<close> exactly where the edge
  detector's output is non-zero. The loop does not test the detector's byte: it tests the
  packed RGBA pixel, read as a signed \<^verbatim>\<open>int\<close>, with \<^verbatim>\<open>pixel > 0\<close>. The alpha byte 255
  is the most significant byte, so every packed pixel is negative (white is \<open>-1\<close>, black
  is \<open>-16777216\<close>) and the test never holds: a successful call writes \<open>0xFF000000\<close> at
  every position below the pixel count, whatever the detector found there. The witness is
  a call in which the detector's output at position 1 is 255.
\<close>

theorem successful_call_writes_only_black:
  assumes "fst (processFrame L J width height s) = Returned 0"
    and "i < nat (sint (width * height))"
  shows "outputBuffer (snd (processFrame L J width height s)) ! i = 0xFF000000"
proof -
  have "processFrame L J width height s = (Returned 0, snd (processFrame L J width height s))"
    using assms(1) by (simp add: prod_eq_iff)
  from processFrame_success [OF this] assms(2) show ?thesis
    by simp
qed

theorem successful_call_writes_only_black_witness:
  "fst (processFrame demo_lib jvm_ok 2 2 (entry_state frame_2x2 4)) = Returned 0
   \<and> (1 :: nat) < nat (sint (2 * 2 :: jint))
   \<and> four_stage_edge_mask demo_lib (yuvMat_of 2 2 frame_2x2)
       = Ok \<lparr>rows = 2, cols = 2, channels = 1, data = [0, 255, 0, 255]\<rparr>
   \<and> outputBuffer (snd (processFrame demo_lib jvm_ok 2 2 (entry_state frame_2x2 4))) ! 1
       = 0xFF000000"
proof -
  have h: "(1 :: nat) < nat (sint (2 * 2 :: jint))" by simp
  from successful_call_writes_only_black [OF demo_2x2_returns_0 h] demo_2x2_returns_0 h
    demo_mask_2x2
  show ?thesis by simp
qed

text \<open>
  C2. The claim is that the four by four step frame yields at least one pixel
  \<open>0xFFFFFFFF\<close>. For every library and every behaviour of the JVM, the output array of
  that call (sixteen zeros before it) holds no \<open>0xFFFFFFFF\<close> afterwards; with the
  stand-in library, whose detector marks the two right columns, the call returns 0 and all
  sixteen pixels are \<open>0xFF000000\<close>.
\<close>

theorem scenario_4x4_has_no_edge_pixel:
  "0xFFFFFFFF \<notin> set (outputBuffer (snd (processFrame L J 4 4 (entry_state frame_4x4 16))))
   \<and> fst (processFrame demo_lib jvm_ok 4 4 (entry_state frame_4x4 16)) = Returned 0
   \<and> outputBuffer (snd (processFrame demo_lib jvm_ok 4 4 (entry_state frame_4x4 16)))
       = replicate 16 0xFF000000"
proof -
  have "set (outputBuffer (snd (processFrame L J 4 4 (entry_state frame_4x4 16))))
      \<subseteq> insert 0xFF000000 (set (outputBuffer (entry_state frame_4x4 16)))"
    by (rule processFrame_values)
  also have "\<dots> \<subseteq> {0xFF000000, 0}"
    by (auto simp add: entry_state_def)
  finally have 1: "0xFFFFFFFF \<notin> set (outputBuffer (snd (processFrame L J 4 4 (entry_state frame_4x4 16))))"
    by auto
  let ?s' = "snd (processFrame demo_lib jvm_ok 4 4 (entry_state frame_4x4 16))"
  have "processFrame demo_lib jvm_ok 4 4 (entry_state frame_4x4 16) = (Returned 0, ?s')"
    using demo_4x4_returns_0 by (simp add: prod_eq_iff)
  from processFrame_success [OF this]
  have len: "length (outputBuffer ?s') = 16"
    and px: "\<forall>j<16. outputBuffer ?s' ! j = 0xFF000000"
    by (simp_all add: entry_state_def)
  have 2: "outputBuffer ?s' = replicate 16 0xFF000000"
    using len px by (intro nth_equalityI) simp_all
  from 1 demo_4x4_returns_0 2 show ?thesis by simp
qed





text \<open>
  C8, as the spec states it, fails in its last part: the four stages are not the only
  transformation before the binarization. On the two by two frame the successful call makes
  five library calls; the fifth, \<^verbatim>\<open>cvtColor(edgesMat, rgbaMat, COLOR_GRAY2RGBA)\<close> of line
  63, turns the edge map into the packed pixels that the loop then tests.
\<close>

theorem binarization_follows_a_fifth_call:
  "fst (processFrame demo_lib jvm_ok 2 2 (entry_state frame_2x2 4)) = Returned 0
   \<and> cv_calls (trace (snd (processFrame demo_lib jvm_ok 2 2 (entry_state frame_2x2 4))))
       \<noteq> four_stage_calls demo_lib (yuvMat_of 2 2 frame_2x2)
   \<and> cv_calls (trace (snd (processFrame demo_lib jvm_ok 2 2 (entry_state frame_2x2 4))))
       = four_stage_calls demo_lib (yuvMat_of 2 2 frame_2x2)
         @ [Ev_cvtColor \<lparr>rows = 2, cols = 2, channels = 1, data = [0, 255, 0, 255]\<rparr>
              COLOR_GRAY2RGBA]"
  using demo_2x2_returns_0
  by (simp add: demo_cv_calls_2x2 demo_four_stage_calls_2x2)

text \<open>
  C8, amended. On the success path the edge map is the four-stage composition, in this
  order and with these parameters: NV21 to colour, colour to gray, Gaussian blur with a
  5 by 5 kernel and sigma 1.5, Canny with thresholds 50 and 150. The library calls of the
  call are exactly these four followed by one more, the conversion of the edge map to RGBA,
  which is what the binarization reads.
\<close>

theorem edge_mask_is_four_stage_composition:
  assumes "fst (processFrame L J width height s) = Returned 0"
  shows "\<exists>bgr gray blurred edges.
     cvtColor_result L (yuvMat_of width height (yuvData s)) COLOR_YUV2BGR_NV21 = Ok bgr \<and>
     cvtColor_result L bgr COLOR_BGR2GRAY = Ok gray \<and>
     gaussian_blur L gray (5, 5) 1.5 = Inr blurred \<and>
     canny L blurred 50 150 = Inr edges \<and>
     four_stage_edge_mask L (yuvMat_of width height (yuvData s)) = Ok edges \<and>
     cv_calls (trace (snd (processFrame L J width height s))) =
       cv_calls (trace s) @
       [Ev_cvtColor (yuvMat_of width height (yuvData s)) COLOR_YUV2BGR_NV21,
        Ev_cvtColor bgr COLOR_BGR2GRAY, Ev_GaussianBlur gray (5, 5) 1.5,
        Ev_Canny blurred 50 150, Ev_cvtColor edges COLOR_GRAY2RGBA]"
  using assms by (rule processFrame_cv_calls)

theorem edge_mask_is_four_stage_composition_witness:
  "fst (processFrame demo_lib jvm_ok 2 2 (entry_state frame_2x2 4)) = Returned 0
   \<and> (\<exists>bgr gray blurred edges.
     cvtColor_result demo_lib (yuvMat_of 2 2 frame_2x2) COLOR_YUV2BGR_NV21 = Ok bgr \<and>
     cvtColor_result demo_lib bgr COLOR_BGR2GRAY = Ok gray \<and>
     gaussian_blur demo_lib gray (5, 5) 1.5 = Inr blurred \<and>
     canny demo_lib blurred 50 150 = Inr edges \<and>
     four_stage_edge_mask demo_lib (yuvMat_of 2 2 frame_2x2) = Ok edges \<and>
     cv_calls (trace (snd (processFrame demo_lib jvm_ok 2 2 (entry_state frame_2x2 4)))) =
       [Ev_cvtColor (yuvMat_of 2 2 frame_2x2) COLOR_YUV2BGR_NV21,
        Ev_cvtColor bgr COLOR_BGR2GRAY, Ev_GaussianBlur gray (5, 5) 1.5,
        Ev_Canny blurred 50 150, Ev_cvtColor edges COLOR_GRAY2RGBA])"
  using edge_mask_is_four_stage_composition [OF demo_2x2_returns_0] demo_2x2_returns_0
  by (simp add: entry_state_def cv_calls_def)

text \<open>
  C9, as the spec states it, fails: the same frame, width and height, each call with a
  fresh output array, need not give the same status. Whether the JVM lends a buffer out is
  not part of the input: where it does, the call on the two by two frame returns 0 and
  writes four pixels; where \<^verbatim>\<open>GetIntArrayElements\<close> returns \<^verbatim>\<open>NULL\<close>, the same call
  returns \<open>-1\<close> and leaves the four zeros.
\<close>

theorem status_depends_on_buffer_availability:
  "fst (processFrame demo_lib jvm_ok 2 2 (entry_state frame_2x2 4)) = Returned 0
   \<and> fst (processFrame demo_lib jvm_no_output 2 2 (entry_state frame_2x2 4)) = Returned (- 1)
   \<and> outputBuffer (snd (processFrame demo_lib jvm_ok 2 2 (entry_state frame_2x2 4)))
       = [0xFF000000, 0xFF000000, 0xFF000000, 0xFF000000]
   \<and> outputBuffer (snd (processFrame demo_lib jvm_no_output 2 2 (entry_state frame_2x2 4)))
       = [0, 0, 0, 0]"
proof -
  let ?s' = "snd (processFrame demo_lib jvm_ok 2 2 (entry_state frame_2x2 4))"
  have "processFrame demo_lib jvm_ok 2 2 (entry_state frame_2x2 4) = (Returned 0, ?s')"
    using demo_2x2_returns_0 by (simp add: prod_eq_iff)
  from processFrame_success [OF this]
  have len: "length (outputBuffer ?s') = 4"
    and px: "\<forall>j<4. outputBuffer ?s' ! j = 0xFF000000"
    by (simp_all add: entry_state_def)
  have "outputBuffer ?s' = replicate 4 0xFF000000"
    using len px by (intro nth_equalityI) simp_all
  then have 1: "outputBuffer ?s' = [0xFF000000, 0xFF000000, 0xFF000000, 0xFF000000]"
    by (simp add: numeral_eq_Suc)
  have "\<not> yuv_available jvm_no_output \<or> \<not> out_available jvm_no_output"
    by (simp add: jvm_no_output_def)
  then have 2: "fst (processFrame demo_lib jvm_no_output 2 2 (entry_state frame_2x2 4))
      = Returned (- 1)"
    and 3: "outputBuffer (snd (processFrame demo_lib jvm_no_output 2 2 (entry_state frame_2x2 4)))
      = [0, 0, 0, 0]"
    by (simp_all add: processFrame_input_error entry_state_def numeral_eq_Suc)
  from demo_2x2_returns_0 1 2 3 show ?thesis by simp
qed

text \<open>
  C9, amended. Take two calls with the same width and height and the same library, on
  frame arrays of the same contents and on output arrays of the same contents (two fresh
  buffers of one length), in which the JVM lends out the same buffers. If the first call
  returns, the second returns the same status and the two output arrays are the same
  afterwards. The calls may differ in everything else: the trace, what the native pointers
  held before, and whether the output buffer is a copy or the array's own storage.
\<close>

theorem processFrame_deterministic:
  assumes "yuvData s1 = yuvData s2" and "outputBuffer s1 = outputBuffer s2"
    and "yuv_available J1 = yuv_available J2" and "out_available J1 = out_available J2"
    and "fst (processFrame L J1 width height s1) = Returned status"
  shows "fst (processFrame L J2 width height s2) = Returned status
    \<and> outputBuffer (snd (processFrame L J2 width height s2))
        = outputBuffer (snd (processFrame L J1 width height s1))"
proof -
  have y: "yuvData s2 = yuvData s1" and o: "outputBuffer s2 = outputBuffer s1"
    and ya: "yuv_available J2 = yuv_available J1" and oa: "out_available J2 = out_available J1"
    using assms(1-4) by simp_all
  from processFrame_agree(1) [OF y o ya oa, of L width height] assms(5)
  have "fst (processFrame L J2 width height s2) = Returned status"
    by simp
  moreover from processFrame_agree(2) [OF y o ya oa assms(5)]
  have "outputBuffer (snd (processFrame L J2 width height s2))
        = outputBuffer (snd (processFrame L J1 width height s1))" .
  ultimately show ?thesis by simp
qed

theorem processFrame_deterministic_witness:
  "yuv_available jvm_ok = yuv_available jvm_direct
   \<and> out_available jvm_ok = out_available jvm_direct
   \<and> jvm_ok \<noteq> jvm_direct
   \<and> (entry_state frame_2x2 4)\<lparr>outPixels := Some [7], trace := [Ev_LOGE ''earlier call'']\<rparr>
       \<noteq> entry_state frame_2x2 4
   \<and> fst (processFrame demo_lib jvm_ok 2 2 (entry_state frame_2x2 4)) = Returned 0
   \<and> fst (processFrame demo_lib jvm_direct 2 2
          ((entry_state frame_2x2 4)\<lparr>outPixels := Some [7], trace := [Ev_LOGE ''earlier call'']\<rparr>))
       = Returned 0
   \<and> outputBuffer (snd (processFrame demo_lib jvm_direct 2 2
          ((entry_state frame_2x2 4)\<lparr>outPixels := Some [7], trace := [Ev_LOGE ''earlier call'']\<rparr>)))
       = outputBuffer (snd (processFrame demo_lib jvm_ok 2 2 (entry_state frame_2x2 4)))"
proof -
  let ?s2 = "(entry_state frame_2x2 4)\<lparr>outPixels := Some [7], trace := [Ev_LOGE ''earlier call'']\<rparr>"
  have h1: "yuvData (entry_state frame_2x2 4) = yuvData ?s2" by simp
  have h2: "outputBuffer (entry_state frame_2x2 4) = outputBuffer ?s2" by simp
  have h3: "yuv_available jvm_ok = yuv_available jvm_direct"
    and h4: "out_available jvm_ok = out_available jvm_direct"
    by (simp_all add: jvm_ok_def jvm_direct_def)
  have d1: "jvm_ok \<noteq> jvm_direct"
    by (simp add: jvm_ok_def jvm_direct_def)
  have d2: "?s2 \<noteq> entry_state frame_2x2 4"
    by (simp add: entry_state_def)
  from processFrame_deterministic [OF h1 h2 h3 h4 demo_2x2_returns_0] h3 h4 d1 d2
    demo_2x2_returns_0
  show ?thesis by simp
qed

end
